theory Spec2Isabelle
  imports Main
begin

section \<open>Python values shared by the whole module\<close>

text \<open>
  Exceptions are values. \<open>UnboundLocalError\<close> is a subclass of \<open>NameError\<close> in Python,
  which matters for the \<open>except NameError\<close> clause of \<open>run_setup\<close>. \<open>SystemExit\<close> is not a
  subclass of \<open>Exception\<close>, so \<open>except Exception\<close> lets it through. Every other exception
  class raised by a collaborator library is carried by \<open>OtherError\<close> with its class name.
\<close>

datatype error =
    TypeError
  | ValueError
  | AttributeError
  | KeyError
  | NameError
  | UnboundLocalError
  | ImportError
  | OSError
  | RuntimeError
  | SystemExit
  | OtherError string

definition is_NameError :: "error \<Rightarrow> bool" where
  "is_NameError e = (e = NameError \<or> e = UnboundLocalError)"

definition is_Exception :: "error \<Rightarrow> bool" where
  "is_Exception e = (e \<noteq> SystemExit)"

text \<open>Sequencing of calls that may raise: the first exception ends the computation.\<close>

fun ebind :: "error + 'a \<Rightarrow> ('a \<Rightarrow> error + 'b) \<Rightarrow> error + 'b" where
  "ebind (Inl e) f = Inl e"
| "ebind (Inr x) f = f x"

fun map_err :: "('a \<Rightarrow> error + 'b) \<Rightarrow> 'a list \<Rightarrow> error + 'b list" where
  "map_err f [] = Inr []"
| "map_err f (x # xs) = ebind (f x) (\<lambda>y. ebind (map_err f xs) (\<lambda>ys. Inr (y # ys)))"

text \<open>\<open>next(iter(xs), None)\<close>.\<close>

fun first_or_None :: "'a list \<Rightarrow> 'a option" where
  "first_or_None [] = None"
| "first_or_None (x # _) = Some x"

subsection \<open>String methods used by the module\<close>

definition startswith :: "string \<Rightarrow> string \<Rightarrow> bool" where
  "startswith s p = (take (length p) s = p)"

definition endswith :: "string \<Rightarrow> string \<Rightarrow> bool" where
  "endswith s p = (length p \<le> length s \<and> drop (length s - length p) s = p)"

text \<open>
  \<open>str.split(sep)\<close> for a non-empty separator: cut at every non-overlapping occurrence,
  scanning from the left. The accumulator holds the current piece reversed.
\<close>

function split_acc :: "string \<Rightarrow> string \<Rightarrow> string \<Rightarrow> string list" where
  "split_acc sep acc [] = [rev acc]"
| "split_acc sep acc (c # cs) =
     (if sep \<noteq> [] \<and> take (length sep) (c # cs) = sep
      then rev acc # split_acc sep [] (drop (length sep) (c # cs))
      else split_acc sep (c # acc) cs)"
  by pat_completeness auto
termination
  by (relation "measure (\<lambda>(sep, acc, s). length s)") auto

definition split :: "string \<Rightarrow> string \<Rightarrow> string list" where
  "split s sep = split_acc sep [] s"

text \<open>
  \<open>str.strip()\<close> removes white space at both ends. The white-space characters of a
  Python 3 \<open>str\<close> below code point 256 are 9 to 13, 28 to 32, 133 and 160.
\<close>

definition isspace :: "char \<Rightarrow> bool" where
  "isspace c = (let n = of_char c :: nat in
     (9 \<le> n \<and> n \<le> 13) \<or> (28 \<le> n \<and> n \<le> 32) \<or> n = 133 \<or> n = 160)"

definition strip :: "string \<Rightarrow> string" where
  "strip s = rev (dropWhile isspace (rev (dropWhile isspace s)))"

text \<open>
  \<open>resource.rpartition(".")\<close> when \<open>"." in resource\<close>: the text before the last dot and
  the text after it.
\<close>

definition rpartition_dot :: "string \<Rightarrow> string \<times> string" where
  "rpartition_dot s =
     (let after = rev (takeWhile (\<lambda>c. c \<noteq> CHR ''.'') (rev s))
      in (take (length s - length after - 1) s, after))"

subsection \<open>Requirement objects\<close>

text \<open>
  A parsed environment marker is the \<open>_markers\<close> list of \<open>packaging.markers.Marker\<close>:
  comparison triples, the strings \<open>and\<close>/\<open>or\<close>, and nested lists for parenthesised groups.
  Both sides of a triple carry a \<open>.value\<close>.
\<close>

datatype marker_atom = Variable string | Value string

fun atom_value :: "marker_atom \<Rightarrow> string" where
  "atom_value (Variable v) = v"
| "atom_value (Value v) = v"

datatype marker_elem =
    MTuple marker_atom string marker_atom
  | MBool string
  | MGroup "marker_elem list"

text \<open>
  A requirement object of \<open>pkg_resources\<close>/\<open>packaging\<close>, reduced to what this module reads
  from it: the attributes \<open>key\<close>, \<open>name\<close> and \<open>project_name\<close> (each may be missing, so that
  \<open>getattr(req, ..., None)\<close> gives \<open>None\<close>), its \<open>str()\<close>, and its \<open>marker\<close> (\<open>None\<close> or
  the \<open>_markers\<close> list).
\<close>

record requirement_obj =
  req_key :: "string option"
  req_name :: "string option"
  req_project_name :: "string option"
  req_str :: string
  req_marker :: "marker_elem list option"

text \<open>
  Where the code accepts "a requirement" it receives \<open>None\<close>, a string or a requirement
  object.
\<close>

datatype reqval = RNone | RStr string | RObj requirement_obj

section \<open>BaseRequirement and Extra\<close>

record BaseRequirement =
  br_name :: "string option"
  br_requirement :: reqval

definition from_req :: "reqval \<Rightarrow> BaseRequirement" where
  "from_req req =
     (let key = (case req of RObj r \<Rightarrow> req_key r | _ \<Rightarrow> None);
          name = (case req of RObj r \<Rightarrow> req_name r | _ \<Rightarrow> None);
          project_name = (case req of RObj r \<Rightarrow> req_project_name r | _ \<Rightarrow> None);
          name = (if key \<noteq> None then key else name);
          name = (if name = None then project_name else name)
      in \<lparr>br_name = name, br_requirement = req\<rparr>)"

text \<open>
  \<open>init_requirement\<close> lives in the package's \<open>utils\<close> module and wraps the requirement
  parser of \<open>pkg_resources\<close>; it is a parameter of every function that parses a line.
\<close>

definition from_string ::
  "(string \<Rightarrow> error + requirement_obj) \<Rightarrow> string \<Rightarrow> error + BaseRequirement" where
  "from_string init_requirement line =
     (case init_requirement (strip line) of
        Inl e \<Rightarrow> Inl e
      | Inr req \<Rightarrow> Inr (from_req (RObj req)))"

text \<open>\<open>__str__\<close>: the text of the requirement (\<open>str(None)\<close> for a missing one).\<close>

definition BaseRequirement_str :: "BaseRequirement \<Rightarrow> string" where
  "BaseRequirement_str self =
     (case br_requirement self of RNone \<Rightarrow> ''None'' | RStr s \<Rightarrow> s | RObj r \<Rightarrow> req_str r)"

record Extra =
  extra_name :: "string option"
  extra_requirements :: "BaseRequirement set"

text \<open>
  \<open>set.add\<close> mutates its receiver and returns \<open>None\<close>: the pair is the receiver after the
  call and the value of the call expression. \<open>frozenset(None)\<close> raises \<open>TypeError\<close>.
\<close>

definition set_add :: "'a set \<Rightarrow> 'a \<Rightarrow> 'a set \<times> 'a set option" where
  "set_add s x = (insert x s, None)"

definition frozenset :: "'a set option \<Rightarrow> error + 'a set" where
  "frozenset v = (case v of None \<Rightarrow> Inl TypeError | Some s \<Rightarrow> Inr s)"

definition Extra_add :: "Extra \<Rightarrow> BaseRequirement \<Rightarrow> error + Extra" where
  "Extra_add self req =
     (if req \<notin> extra_requirements self
      then (case frozenset (snd (set_add (extra_requirements self) req)) of
              Inl e \<Rightarrow> Inl e
            | Inr fs \<Rightarrow> Inr (self\<lparr>extra_requirements := fs\<rparr>))
      else Inr self)"

section \<open>The world outside the module\<close>

text \<open>
  A path is the list of its components below the root, so \<open>.parent\<close> is \<open>butlast\<close> and
  \<open>joinpath\<close> appends a component. The file system maps paths to files (with their text)
  and directories; the order of the list is the order in which \<open>scandir\<close> reports
  entries. The world also holds the working directory, the module global
  \<open>_setup_distribution\<close> and the clean-ups registered with \<open>atexit\<close>.
\<close>

type_synonym path = "string list"

datatype node = File string | Dir

text \<open>
  The distribution object a legacy script leaves behind (\<open>setuptools.dist.Distribution\<close>),
  reduced to the attributes \<open>run_setup\<close> reads.
\<close>

record setup_dist =
  sd_get_name :: string
  sd_python_requires :: "string option"
  sd_extras_require :: "(string \<times> string list) list"
  sd_get_requires :: "string list"
  sd_install_requires :: "string list"
  sd_setup_requires :: "string list"
  sd_get_version :: string

record world =
  w_fs :: "(path \<times> node) list"
  w_cwd :: path
  w_setup_distribution :: "setup_dist option"
  w_atexit :: "path list"

definition path_exists :: "world \<Rightarrow> path \<Rightarrow> bool" where
  "path_exists w p = (p = [] \<or> map_of (w_fs w) p \<noteq> None)"

definition is_dir :: "world \<Rightarrow> path \<Rightarrow> bool" where
  "is_dir w p = (p = [] \<or> map_of (w_fs w) p = Some Dir)"

text \<open>
  A path written as text is looked up component by component, from the root when the
  text starts with a slash and from the working directory otherwise. Every step starts in
  a directory: an empty component and \<open>.\<close> stay there, \<open>..\<close> steps up, a name steps down.
  The result is the place reached, whether or not anything is there; there is none when a
  step starts from something that is not a directory (so \<open>nodir/../f\<close> and \<open>f/\<close> for a file
  \<open>f\<close> name nothing).
\<close>

fun walk :: "world \<Rightarrow> path \<Rightarrow> string list \<Rightarrow> path option" where
  "walk w dir [] = Some dir"
| "walk w dir (c # cs) =
     (if \<not> is_dir w dir then None
      else if c = [] \<or> c = ''.'' then walk w dir cs
      else if c = ''..'' then walk w (butlast dir) cs
      else walk w (dir @ [c]) cs)"

definition resolve :: "world \<Rightarrow> string \<Rightarrow> path option" where
  "resolve w s = walk w (if startswith s ''/'' then [] else w_cwd w) (split s ''/'')"

text \<open>\<open>os.path.exists\<close> on text: the empty string names nothing.\<close>

definition os_path_exists :: "world \<Rightarrow> string \<Rightarrow> bool" where
  "os_path_exists w s =
     (s \<noteq> [] \<and> (case resolve w s of None \<Rightarrow> False | Some p \<Rightarrow> path_exists w p))"

definition read_file :: "world \<Rightarrow> path \<Rightarrow> error + string" where
  "read_file w p =
     (case map_of (w_fs w) p of Some (File text) \<Rightarrow> Inr text | _ \<Rightarrow> Inl OSError)"

text \<open>\<open>open(path).read()\<close> for a path written as text.\<close>

definition open_read :: "world \<Rightarrow> string \<Rightarrow> error + string" where
  "open_read w s = (case resolve w s of None \<Rightarrow> Inl OSError | Some p \<Rightarrow> read_file w p)"

section \<open>The config-file extractor\<close>

text \<open>
  An attribute of an imported module is a string or another object, of which only \<open>str()\<close>
  is used. \<open>importlib.import_module\<close> is a parameter.
\<close>

datatype attrval = AStr string | AObj string

definition getattr :: "(string \<times> attrval) list \<Rightarrow> string \<Rightarrow> error + attrval" where
  "getattr module attribute =
     (case map_of module attribute of None \<Rightarrow> Inl AttributeError | Some v \<Rightarrow> Inr v)"

definition parse_special_directives ::
  "(string \<Rightarrow> error + (string \<times> attrval) list) \<Rightarrow> world \<Rightarrow> string \<Rightarrow> error + string" where
  "parse_special_directives import_module w setup_entry =
     (if startswith setup_entry ''file:'' then
        (case split setup_entry ''file:'' of
           [_, path] \<Rightarrow>
             (let path = strip path
              in if os_path_exists w path then open_read w path
                 else Inr setup_entry)
         | _ \<Rightarrow> Inl ValueError)
      else if startswith setup_entry ''attr:'' then
        (case split setup_entry ''attr:'' of
           [_, resource] \<Rightarrow>
             (let resource = strip resource;
                  has_dot = (CHR ''.'' \<in> set resource);
                  attribute = (if has_dot then Some (snd (rpartition_dot resource)) else None);
                  resource = (if has_dot then fst (rpartition_dot resource) else resource)
              in ebind (import_module resource) (\<lambda>module.
                   case attribute of
                     None \<Rightarrow> Inl UnboundLocalError
                   | Some a \<Rightarrow>
                       ebind (getattr module a) (\<lambda>rv.
                         case rv of AStr s \<Rightarrow> Inr s | AObj s \<Rightarrow> Inr s)))
         | _ \<Rightarrow> Inl ValueError)
      else Inr setup_entry)"

text \<open>
  A resolvable \<open>attr:\<close> target: the module named before the last dot can be imported
  and has the attribute named after it.
\<close>

definition attr_resolvable ::
  "(string \<Rightarrow> error + (string \<times> attrval) list) \<Rightarrow> string \<Rightarrow> bool" where
  "attr_resolvable import_module resource =
     (CHR ''.'' \<in> set resource \<and>
      (case import_module (fst (rpartition_dot resource)) of
         Inl _ \<Rightarrow> False
       | Inr module \<Rightarrow> map_of module (snd (rpartition_dot resource)) \<noteq> None))"

subsection \<open>The parser object\<close>

text \<open>
  \<open>configparser.ConfigParser\<close> after \<open>read\<close>: the defaults (the keys given to the
  constructor, then the file's \<open>DEFAULT\<close> section) and the file's other sections, each a
  dictionary in file order. Reading and interpolation belong to the library, so the values
  stored here are the ones \<open>get\<close> returns. Option names are lower-cased by the parser
  (\<open>optionxform\<close>).
\<close>

record config_file =
  cf_default :: "(string \<times> string) list"
  cf_sections :: "(string \<times> (string \<times> string) list) list"

record ConfigParser =
  cp_defaults :: "(string \<times> string) list"
  cp_sections :: "(string \<times> (string \<times> string) list) list"

text \<open>
  A character is a code point below 256. \<open>str.lower\<close> maps the capital letters \<open>A\<close> to
  \<open>Z\<close> (65 to 90) and the capital letters of Latin-1 (192 to 222, without the
  multiplication sign 215) to the small letters 32 places further on, and leaves every
  other code point below 256 alone.
\<close>

definition lower_char :: "char \<Rightarrow> char" where
  "lower_char c =
     (let n = of_char c :: nat
      in if (65 \<le> n \<and> n \<le> 90) \<or> (192 \<le> n \<and> n \<le> 222 \<and> n \<noteq> 215) then char_of (n + 32) else c)"

definition lower :: "string \<Rightarrow> string" where
  "lower s = map lower_char s"

text \<open>Assignment \<open>d[k] = v\<close> on a dictionary kept in insertion order.\<close>

fun dict_set :: "('k \<times> 'v) list \<Rightarrow> 'k \<Rightarrow> 'v \<Rightarrow> ('k \<times> 'v) list" where
  "dict_set [] k v = [(k, v)]"
| "dict_set ((k', v') # d) k v = (if k' = k then (k', v) # d else (k', v') # dict_set d k v)"

text \<open>
  The constructor argument \<open>default_opts\<close> has the two keys \<open>metadata\<close> and \<open>options\<close>; the
  parser stores the text of their dictionary values.
\<close>

definition default_opts :: "(string \<times> string) list" where
  "default_opts =
     (let q = [CHR 0x27] in
      [(''metadata'', ''{'' @ q @ ''name'' @ q @ '': '' @ q @ q @ '', '' @ q @ ''version'' @ q
                      @ '': '' @ q @ q @ ''}''),
       (''options'', ''{'' @ q @ ''install_requires'' @ q @ '': '' @ q @ q @ '', ''
                      @ q @ ''python_requires'' @ q @ '': '' @ q @ q @ '', ''
                      @ q @ ''build_requires'' @ q @ '': '' @ q @ q @ '', ''
                      @ q @ ''setup_requires'' @ q @ '': '' @ q @ q @ '', ''
                      @ q @ ''extras'' @ q @ '': '' @ q @ q @ ''}'')])"

definition ConfigParser_read :: "config_file \<Rightarrow> ConfigParser" where
  "ConfigParser_read f =
     \<lparr>cp_defaults = fold (\<lambda>(k, v) d. dict_set d k v) (cf_default f) default_opts,
      cp_sections = cf_sections f\<rparr>"

definition has_option :: "ConfigParser \<Rightarrow> string \<Rightarrow> string \<Rightarrow> bool" where
  "has_option parser section option =
     (if section = [] \<or> section = ''DEFAULT''
      then map_of (cp_defaults parser) (lower option) \<noteq> None
      else case map_of (cp_sections parser) section of
             None \<Rightarrow> False
           | Some sec \<Rightarrow> map_of sec (lower option) \<noteq> None
                        \<or> map_of (cp_defaults parser) (lower option) \<noteq> None)"

definition parser_get :: "ConfigParser \<Rightarrow> string \<Rightarrow> string \<Rightarrow> error + string" where
  "parser_get parser section option =
     (case (if section = ''DEFAULT'' then Some [] else map_of (cp_sections parser) section) of
        None \<Rightarrow> Inl (OtherError ''NoSectionError'')
      | Some sec \<Rightarrow>
          (case map_of sec (lower option) of
             Some v \<Rightarrow> Inr v
           | None \<Rightarrow>
               (case map_of (cp_defaults parser) (lower option) of
                  Some v \<Rightarrow> Inr v
                | None \<Rightarrow> Inl (OtherError ''NoOptionError''))))"

definition parser_sections :: "ConfigParser \<Rightarrow> string list" where
  "parser_sections parser = map fst (cp_sections parser)"

definition parser_options :: "ConfigParser \<Rightarrow> string \<Rightarrow> error + string list" where
  "parser_options parser section =
     (case map_of (cp_sections parser) section of
        None \<Rightarrow> Inl (OtherError ''NoSectionError'')
      | Some sec \<Rightarrow>
          Inr (map fst sec
               @ filter (\<lambda>k. map_of sec k = None) (map fst (cp_defaults parser))))"

subsection \<open>parse_setup_cfg\<close>

text \<open>
  The dictionary \<open>results\<close>: a key that is present is \<open>Some\<close> of its value, a key that
  is absent is \<open>None\<close>.
\<close>

record cfg_results =
  res_name :: "string option"
  res_version :: "string option"
  res_install_requires :: "BaseRequirement set option"
  res_python_requires :: "string option"
  res_build_requires :: "string option"
  res_extras_require :: "(string \<times> BaseRequirement list) list option"

definition empty_results :: cfg_results where
  "empty_results =
     \<lparr>res_name = None, res_version = None, res_install_requires = None,
      res_python_requires = None, res_build_requires = None, res_extras_require = None\<rparr>"

text \<open>The collaborators of the config-file extractor.\<close>

record cfg_env =
  ce_import_module :: "string \<Rightarrow> error + (string \<times> attrval) list"
  ce_read_config :: "world \<Rightarrow> path \<Rightarrow> error + config_file"
  ce_init_requirement :: "string \<Rightarrow> error + requirement_obj"

text \<open>The body of the loop over the options of \<open>options.extras_require\<close>.\<close>

fun extras_loop ::
  "cfg_env \<Rightarrow> ConfigParser \<Rightarrow> string list \<Rightarrow> (string \<times> BaseRequirement list) list
     \<Rightarrow> error + (string \<times> BaseRequirement list) list" where
  "extras_loop env parser [] extras = Inr extras"
| "extras_loop env parser (section # rest) extras =
     (if section \<in> set [''options'', ''metadata''] then extras_loop env parser rest extras
      else
        ebind (parser_get parser ''options.extras_require'' section) (\<lambda>section_contents.
        let section_list = split section_contents [CHR 0x0A] in
        ebind (map_err (from_string (ce_init_requirement env))
                 (filter (\<lambda>extra_name. \<not> (extra_name = [] \<or> startswith extra_name ''#''))
                    section_list)) (\<lambda>section_extras.
        extras_loop env parser rest
          (if section_extras \<noteq> [] then extras @ [(section, section_extras)] else extras))))"

definition parse_setup_cfg ::
  "cfg_env \<Rightarrow> world \<Rightarrow> path \<Rightarrow> error + cfg_results option" where
  "parse_setup_cfg env w setup_cfg_path =
     (if path_exists w setup_cfg_path then
        ebind (ce_read_config env w setup_cfg_path) (\<lambda>f.
        let parser = ConfigParser_read f;
            results = empty_results in
        ebind (if has_option parser ''metadata'' ''name''
               then ebind (parser_get parser ''metadata'' ''name'') (\<lambda>v.
                    ebind (parse_special_directives (ce_import_module env) w v) (\<lambda>v.
                    Inr (results\<lparr>res_name := Some v\<rparr>)))
               else Inr results) (\<lambda>results.
        ebind (if has_option parser ''metadata'' ''version''
               then ebind (parser_get parser ''metadata'' ''version'') (\<lambda>v.
                    ebind (parse_special_directives (ce_import_module env) w v) (\<lambda>v.
                    Inr (results\<lparr>res_version := Some v\<rparr>)))
               else Inr results) (\<lambda>results.
        ebind (if has_option parser ''options'' ''install_requires''
               then ebind (parser_get parser ''options'' ''install_requires'') (\<lambda>v.
                    ebind (map_err (from_string (ce_init_requirement env))
                             (filter (\<lambda>dep. dep \<noteq> []) (split v [CHR 0x0A]))) (\<lambda>reqs.
                    Inr (set reqs)))
               else Inr {}) (\<lambda>install_requires.
        let results = results\<lparr>res_install_requires := Some install_requires\<rparr> in
        ebind (if has_option parser ''options'' ''python_requires''
               then ebind (parser_get parser ''options'' ''python_requires'') (\<lambda>v.
                    ebind (parse_special_directives (ce_import_module env) w v) (\<lambda>v.
                    Inr (results\<lparr>res_python_requires := Some v\<rparr>)))
               else Inr results) (\<lambda>results.
        ebind (if has_option parser ''options'' ''build_requires''
               then ebind (parser_get parser ''options'' ''build_requires'') (\<lambda>v.
                    Inr (results\<lparr>res_build_requires := Some v\<rparr>))
               else Inr results) (\<lambda>results.
        ebind (if ''options.extras_require'' \<in> set (parser_sections parser)
               then ebind (parser_options parser ''options.extras_require'') (\<lambda>opts.
                    extras_loop env parser opts [])
               else Inr []) (\<lambda>extras.
        Inr (Some (results\<lparr>res_extras_require := Some extras\<rparr>)))))))))
      else Inr None)"

section \<open>Metadata of wheels and installed distributions\<close>

text \<open>
  The dictionary the extractors return always has the four keys \<open>name\<close>, \<open>version\<close>,
  \<open>requires\<close> and \<open>extras\<close>; \<open>extras\<close> is a dictionary in insertion order.
\<close>

record metadata =
  md_name :: "string option"
  md_version :: "string option"
  md_requires :: "requirement_obj list"
  md_extras :: "(string \<times> requirement_obj list) list"

subsection \<open>ensure_reqs\<close>

text \<open>
  A string is parsed with \<open>pkg_resources.Requirement.parse\<close> (a parameter), an object is
  kept; falsy entries are skipped. A requirement object is always truthy.
\<close>

fun ensure_reqs ::
  "(string \<Rightarrow> error + requirement_obj) \<Rightarrow> reqval list \<Rightarrow> error + requirement_obj list" where
  "ensure_reqs parse [] = Inr []"
| "ensure_reqs parse (RNone # reqs) = ensure_reqs parse reqs"
| "ensure_reqs parse (RStr s # reqs) =
     (if s = [] then ensure_reqs parse reqs
      else ebind (parse s) (\<lambda>req. ebind (ensure_reqs parse reqs) (\<lambda>new_reqs. Inr (req # new_reqs))))"
| "ensure_reqs parse (RObj r # reqs) =
     ebind (ensure_reqs parse reqs) (\<lambda>new_reqs. Inr (r # new_reqs))"

subsection \<open>get_extra_name_from_marker\<close>

text \<open>
  The argument is the \<open>_markers\<close> list of a marker object. The object itself is always
  truthy, so the \<open>ValueError\<close> of the first test cannot arise; an empty list raises
  \<open>TypeError\<close>. Only the triples at the top level of the list are looked at.
\<close>

fun first_extra :: "marker_elem list \<Rightarrow> string option" where
  "first_extra [] = None"
| "first_extra (MTuple lhs op rhs # elems) =
     (if atom_value lhs = ''extra'' then Some (atom_value rhs) else first_extra elems)"
| "first_extra (_ # elems) = first_extra elems"

definition get_extra_name_from_marker :: "marker_elem list \<Rightarrow> error + string option" where
  "get_extra_name_from_marker markers =
     (if markers = [] then Inl TypeError else Inr (first_extra markers))"

subsection \<open>get_metadata_from_wheel\<close>

text \<open>
  \<open>distlib\<close>'s view of a wheel: \<open>Wheel(path)\<close> may raise, and so may reading the
  \<open>metadata\<close> property of the object it returns. An exception of the constructor is
  swallowed and the next line then fails on the unbound name \<open>dist\<close>. The path is text, so
  the \<open>TypeError\<close> for an argument of another type cannot arise.
\<close>

record wheel_metadata =
  wm_name :: "string option"
  wm_version :: "string option"
  wm_extras :: "string list"
  wm_run_requires :: "string list"

text \<open>\<open>extras[extra].append(req)\<close> after \<open>if extra not in extras: extras[extra] = []\<close>.\<close>

fun dict_append :: "('k \<times> 'v list) list \<Rightarrow> 'k \<Rightarrow> 'v \<Rightarrow> ('k \<times> 'v list) list" where
  "dict_append [] k v = [(k, [v])]"
| "dict_append ((k', vs) # d) k v =
     (if k' = k then (k', vs @ [v]) # d else (k', vs) # dict_append d k v)"

text \<open>
  The loop over \<open>run_requires\<close>, with the lists \<open>requires\<close> and \<open>extras\<close> it fills.
  \<open>strip_extras_markers_from_requirement\<close> is a function of the package's \<open>utils\<close> module
  and a parameter here.
\<close>

fun wheel_requires_loop ::
  "(string \<Rightarrow> error + requirement_obj) \<Rightarrow> (requirement_obj \<Rightarrow> requirement_obj)
     \<Rightarrow> string list \<Rightarrow> requirement_obj list \<Rightarrow> (string \<times> requirement_obj list) list
     \<Rightarrow> error + requirement_obj list \<times> (string \<times> requirement_obj list) list" where
  "wheel_requires_loop init_requirement strip_extras [] requires extras = Inr (requires, extras)"
| "wheel_requires_loop init_requirement strip_extras (req # reqs) requires extras =
     ebind (init_requirement req) (\<lambda>parsed_req.
       case req_marker parsed_req of
         Some parsed_marker \<Rightarrow>
           ebind (get_extra_name_from_marker parsed_marker) (\<lambda>extra.
             case extra of
               None \<Rightarrow>
                 wheel_requires_loop init_requirement strip_extras reqs
                   (requires @ [parsed_req]) extras
             | Some extra \<Rightarrow>
                 wheel_requires_loop init_requirement strip_extras reqs requires
                   (dict_append extras extra (strip_extras parsed_req)))
       | None \<Rightarrow>
           wheel_requires_loop init_requirement strip_extras reqs
             (requires @ [parsed_req]) extras)"

definition get_metadata_from_wheel ::
  "(world \<Rightarrow> path \<Rightarrow> error + (error + wheel_metadata))
     \<Rightarrow> (string \<Rightarrow> error + requirement_obj) \<Rightarrow> (requirement_obj \<Rightarrow> requirement_obj)
     \<Rightarrow> world \<Rightarrow> path \<Rightarrow> error + metadata" where
  "get_metadata_from_wheel Wheel init_requirement strip_extras w wheel_path =
     (case Wheel w wheel_path of
        Inl e \<Rightarrow> if is_Exception e then Inl UnboundLocalError else Inl e
      | Inr dist \<Rightarrow>
          ebind dist (\<lambda>metadata.
          ebind (wheel_requires_loop init_requirement strip_extras (wm_run_requires metadata) []
                   (fold (\<lambda>k extras. dict_set extras k []) (wm_extras metadata) []))
            (\<lambda>(requires, extras).
          Inr \<lparr>md_name = wm_name metadata, md_version = wm_version metadata,
               md_requires = requires, md_extras = extras\<rparr>)))"

subsection \<open>get_metadata_from_dist\<close>

text \<open>
  A distribution object of \<open>pkg_resources\<close>: the results of \<open>requires()\<close> and of
  \<open>_build_dep_map()\<close> (a dictionary whose keys are \<open>None\<close> or text), \<open>project_name\<close>, and
  the \<open>version\<close> property, which raises when the metadata has no version.
\<close>

record pkg_dist =
  pd_requires :: "error + requirement_obj list"
  pd_build_dep_map :: "error + (string option \<times> requirement_obj list) list"
  pd_project_name :: "string option"
  pd_version :: "error + string option"

definition replace_colon :: "string \<Rightarrow> string" where
  "replace_colon k = concat (map (\<lambda>c. if c = CHR '':'' then ''; '' else [c]) k)"

text \<open>
  The loop over the keys of the dependency map, with the list \<open>deps\<close> and the dictionary
  \<open>extras\<close> it fills.
\<close>

fun dep_map_loop ::
  "(string \<Rightarrow> error + requirement_obj) \<Rightarrow> (string option \<times> requirement_obj list) list
     \<Rightarrow> requirement_obj list \<Rightarrow> (string \<times> requirement_obj list) list
     \<Rightarrow> error + requirement_obj list \<times> (string \<times> requirement_obj list) list" where
  "dep_map_loop parse [] deps extras = Inr (deps, extras)"
| "dep_map_loop parse ((None, ds) # dep_map) deps extras =
     dep_map_loop parse dep_map (deps @ ds) extras"
| "dep_map_loop parse ((Some k, ds) # dep_map) deps extras =
     (let marker = (if startswith k '':python_version'' then replace_colon k else []);
          extra = (if startswith k '':python_version'' then None else Some k)
      in ebind (ensure_reqs parse (map (\<lambda>req. RStr (req_str req @ marker)) ds)) (\<lambda>ds'.
           if extra \<noteq> None \<and> extra \<noteq> Some []
           then dep_map_loop parse dep_map deps (dict_set extras k ds')
           else dep_map_loop parse dep_map (deps @ ds') extras))"

definition get_metadata_from_dist ::
  "(string \<Rightarrow> error + requirement_obj) \<Rightarrow> pkg_dist \<Rightarrow> error + metadata" where
  "get_metadata_from_dist parse dist =
     ebind (case pd_requires dist of
              Inl e \<Rightarrow> if is_Exception e then Inr [] else Inl e
            | Inr rs \<Rightarrow> Inr rs) (\<lambda>requires.
     ebind (case pd_build_dep_map dist of
              Inl e \<Rightarrow> if is_Exception e then Inr [] else Inl e
            | Inr dm \<Rightarrow> Inr dm) (\<lambda>dep_map.
     ebind (dep_map_loop parse dep_map [] []) (\<lambda>(deps, extras).
     ebind (pd_version dist) (\<lambda>version.
     Inr \<lparr>md_name = pd_project_name dist, md_version = version,
          md_requires = requires, md_extras = extras\<rparr>))))"

subsection \<open>Searching a tree for metadata directories\<close>

record DirEntry =
  de_name :: string
  de_path :: path
  de_is_dir :: bool

definition max_depth :: "(path \<times> node) list \<Rightarrow> nat" where
  "max_depth fs = fold max (map (length \<circ> fst) fs) 0"

text \<open>The entries \<open>scandir\<close> reports for a directory: the paths one component longer.\<close>

definition scandir :: "world \<Rightarrow> path \<Rightarrow> DirEntry list" where
  "scandir w p =
     map (\<lambda>q. \<lparr>de_name = last q, de_path = q, de_is_dir = (map_of (w_fs w) q = Some Dir)\<rparr>)
       (filter (\<lambda>q. q \<noteq> [] \<and> butlast q = p) (remdups (map fst (w_fs w))))"

text \<open>
  \<open>os.path.splitext\<close> on a name without separators: cut at the last dot, unless only dots
  come before it.
\<close>

definition splitext :: "string \<Rightarrow> string \<times> string" where
  "splitext p =
     (if CHR ''.'' \<in> set p then
        (let dotIndex = length p - length (takeWhile (\<lambda>c. c \<noteq> CHR ''.'') (rev p)) - 1
         in if filter (\<lambda>c. c \<noteq> CHR ''.'') (take dotIndex p) \<noteq> []
            then (take dotIndex p, drop dotIndex p) else (p, []))
      else (p, []))"

lemma max_depth_bound_aux: "fold max xs (a::nat) \<ge> a \<and> (\<forall>x \<in> set xs. x \<le> fold max xs a)"
proof (induction xs arbitrary: a)
  case Nil
  then show ?case by simp
next
  case (Cons x xs)
  have "max x a \<le> fold max xs (max x a)" using Cons.IH[of "max x a"] by blast
  then show ?case using Cons.IH[of "max x a"] by auto
qed

lemma max_depth_bound: "q \<in> fst ` set fs \<Longrightarrow> length q \<le> max_depth fs"
  using max_depth_bound_aux[of 0 "map (length \<circ> fst) fs"] by (auto simp: max_depth_def)

lemma scandir_deeper:
  assumes "e \<in> set (scandir w p)"
  shows "length (de_path e) = Suc (length p) \<and> length (de_path e) \<le> max_depth (w_fs w)"
proof -
  from assms have q: "de_path e \<in> fst ` set (w_fs w) \<and> de_path e \<noteq> [] \<and> butlast (de_path e) = p"
    by (force simp: scandir_def)
  then have "length (de_path e) = Suc (length p)"
    by (cases "de_path e" rule: rev_cases) auto
  moreover have "length (de_path e) \<le> max_depth (w_fs w)"
    using q by (intro max_depth_bound) simp
  ultimately show ?thesis by simp
qed

lemma map_err_cong [fundef_cong]:
  "xs = ys \<Longrightarrow> (\<And>x. x \<in> set ys \<Longrightarrow> f x = g x) \<Longrightarrow> map_err f xs = map_err g ys"
  by (induction ys arbitrary: xs) auto

text \<open>
  \<open>iter_metadata\<close>: the matching directories of this level in scan order, then those
  found below each directory that does not itself carry the suffix. Scanning something
  that is not a directory raises.
\<close>

function iter_metadata ::
  "(string \<Rightarrow> string list) \<Rightarrow> world \<Rightarrow> path \<Rightarrow> string option \<Rightarrow> string
     \<Rightarrow> error + DirEntry list" where
  "iter_metadata get_name_variants w path pkg_name metadata_type =
     (if \<not> is_dir w path then Inl OSError
      else
        (let dirs = filter de_is_dir (scandir w path);
             matching = filter (\<lambda>entry.
                 endswith (snd (splitext (de_name entry))) metadata_type
                 \<and> (case pkg_name of
                       None \<Rightarrow> True
                     | Some n \<Rightarrow> lower (fst (splitext (de_name entry))) \<in> set (get_name_variants n)))
               dirs;
             non_matching_dirs = filter (\<lambda>entry.
                 \<not> endswith (snd (splitext (de_name entry))) metadata_type
                 \<and> \<not> endswith (de_name entry) metadata_type) dirs
         in ebind (map_err (\<lambda>entry.
                     iter_metadata get_name_variants w (de_path entry) pkg_name metadata_type)
                   non_matching_dirs)
              (\<lambda>below. Inr (matching @ concat below))))"
  by pat_completeness auto
termination
proof (relation "measure (\<lambda>(g, w, path, n, t). Suc (max_depth (w_fs w)) - length path)",
    goal_cases)
  case 1
  show ?case by simp
next
  case (2 g w path n t dirs matching non_matching entry)
  then have "entry \<in> set (scandir w path)" by simp
  then have "length (de_path entry) = Suc (length path)
      \<and> length (de_path entry) \<le> max_depth (w_fs w)"
    by (rule scandir_deeper)
  then have "Suc (max_depth (w_fs w)) - length (de_path entry)
      < Suc (max_depth (w_fs w)) - length path"
    by arith
  then show ?case by simp
qed

declare iter_metadata.simps [simp del]

text \<open>
  \<open>find_egginfo\<close> and \<open>find_distinfo\<close> are generators: with a package name they yield one
  value, the first directory found or \<open>None\<close>; without one they yield every directory.
\<close>

definition find_egginfo ::
  "(string \<Rightarrow> string list) \<Rightarrow> world \<Rightarrow> path \<Rightarrow> string option \<Rightarrow> error + DirEntry option list" where
  "find_egginfo get_name_variants w target pkg_name =
     ebind (iter_metadata get_name_variants w target pkg_name ''egg-info'') (\<lambda>egg_dirs.
       if pkg_name \<noteq> None \<and> pkg_name \<noteq> Some [] then Inr [first_or_None egg_dirs]
       else Inr (map Some egg_dirs))"

definition find_distinfo ::
  "(string \<Rightarrow> string list) \<Rightarrow> world \<Rightarrow> path \<Rightarrow> string option \<Rightarrow> error + DirEntry option list" where
  "find_distinfo get_name_variants w target pkg_name =
     ebind (iter_metadata get_name_variants w target pkg_name ''dist-info'') (\<lambda>dist_dirs.
       if pkg_name \<noteq> None \<and> pkg_name \<noteq> Some [] then Inr [first_or_None dist_dirs]
       else Inr (map Some dist_dirs))"

subsection \<open>get_metadata\<close>

text \<open>The collaborators of the installed-metadata probe.\<close>

record probe_env =
  pe_get_name_variants :: "string \<Rightarrow> string list"
  pe_find_distributions :: "world \<Rightarrow> path \<Rightarrow> pkg_dist list"
  pe_distributions_from_metadata :: "world \<Rightarrow> path \<Rightarrow> pkg_dist list"
  pe_Requirement_parse :: "string \<Rightarrow> error + requirement_obj"

text \<open>
  \<open>matched_dir\<close>: the first entry of \<open>metadata_dirs\<close>, to which the dist-info directory is
  appended before the egg-info directory.
\<close>

definition matched_dir ::
  "bool \<Rightarrow> bool \<Rightarrow> DirEntry option \<Rightarrow> DirEntry option \<Rightarrow> DirEntry option" where
  "matched_dir wheel_allowed egg_allowed dist_dir egg_dir =
     first_or_None
       ((case dist_dir of Some d \<Rightarrow> if wheel_allowed then [d] else [] | None \<Rightarrow> [])
        @ (case egg_dir of Some d \<Rightarrow> if egg_allowed then [d] else [] | None \<Rightarrow> []))"

definition get_metadata ::
  "probe_env \<Rightarrow> world \<Rightarrow> path \<Rightarrow> string option \<Rightarrow> string option \<Rightarrow> error + metadata option" where
  "get_metadata env w path pkg_name metadata_type =
     (let wheel_allowed = (metadata_type = Some ''wheel'' \<or> metadata_type = None);
          egg_allowed = (metadata_type = Some ''egg'' \<or> metadata_type = None)
      in ebind (find_egginfo (pe_get_name_variants env) w path pkg_name) (\<lambda>eggs.
         let egg_dir = (case first_or_None eggs of None \<Rightarrow> None | Some d \<Rightarrow> d) in
         ebind (find_distinfo (pe_get_name_variants env) w path pkg_name) (\<lambda>dists.
         let dist_dir = (case first_or_None dists of None \<Rightarrow> None | Some d \<Rightarrow> d) in
         case matched_dir wheel_allowed egg_allowed dist_dir egg_dir of
           None \<Rightarrow> Inr None
         | Some matched \<Rightarrow>
             (let metadata_dir = de_path matched;
                  base_dir = butlast metadata_dir;
                  distinfo_dist =
                    (if wheel_allowed \<and> dist_dir \<noteq> None
                     then first_or_None (pe_find_distributions env w base_dir) else None);
                  egg_dist =
                    (if egg_allowed \<and> egg_dir \<noteq> None
                     then first_or_None (pe_distributions_from_metadata env w metadata_dir)
                     else None)
              in case first_or_None (List.map_filter id [distinfo_dist, egg_dist]) of
                   None \<Rightarrow> Inr None
                 | Some dist \<Rightarrow>
                     ebind (get_metadata_from_dist (pe_Requirement_parse env) dist)
                       (\<lambda>m. Inr (Some m))))))"

section \<open>The aggregate SetupInfo\<close>

text \<open>
  Of the originating \<open>InstallRequirement\<close> only \<open>extras\<close> is read; the list gives the
  order in which the loop \<open>for extra in self.ireq.extras\<close> visits them.
\<close>

record InstallRequirement =
  ireq_extras :: "string list"

text \<open>
  \<open>_requirements\<close> is meant to hold \<open>BaseRequirement\<close> values, but \<open>run_setup\<close> also
  unions in the bare values it finds in \<open>self.extras\<close>.
\<close>

datatype req_item = BR BaseRequirement | Raw reqval

fun is_Raw :: "req_item \<Rightarrow> bool" where
  "is_Raw (Raw _) = True"
| "is_Raw (BR _) = False"

text \<open>
  \<open>python_requires\<close> is the text of the config value or a \<open>SpecifierSet\<close>, of which the
  list of specifiers is kept (its \<open>len\<close> decides its truth value).
\<close>

datatype py_spec = SpecStr string | SpecifierSet "string list"

text \<open>The flat tuple stored in \<open>self.metadata\<close>.\<close>

datatype md_item =
    MdKey string
  | MdStr "string option"
  | MdReqs "requirement_obj list"
  | MdExtra string "requirement_obj list"

record SetupInfo =
  si_name :: "string option"
  si_base_dir :: "path option"
  si_version :: "string option"
  si_requirements :: "req_item set"
  si_build_requires :: "string list"
  si_build_backend :: string
  si_setup_requires :: "string list"
  si_python_requires :: "py_spec option"
  si_extras_requirements :: "(string \<times> BaseRequirement list) list"
  si_setup_cfg :: "path option"
  si_setup_py :: "path option"
  si_pyproject :: "path option"
  si_ireq :: "InstallRequirement option"
  si_extra_kwargs :: "(string \<times> path) list option"
  si_metadata :: "md_item list option"

text \<open>
  The collaborators of the orchestrator. Those that touch the file system or run a
  process take the world and, when they change it, return the new one:
  \<^item> \<open>get_pyproject\<close> and \<open>get_default_pyproject_backend\<close> of the package's \<open>utils\<close>;
  \<^item> the isolated build of \<open>build_pep517\<close> (hook caller and build environment), given the
    source directory, the build requirements, the backend, the build directory and the
    kind of distribution, returning the artifact's name;
  \<^item> \<open>exec\<close> of the legacy script with its arguments, and the subprocess \<open>run\<close>; either may
    assign the module global \<open>_setup_distribution\<close>;
  \<^item> the constructor of \<open>SpecifierSet\<close>;
  \<^item> the order in which Python iterates over \<open>set(xs)\<close>, for tuples of strings and for
    the tuple of extras.
\<close>

record env =
  e_cfg :: cfg_env
  e_probe :: probe_env
  e_strip_extras_markers_from_requirement :: "requirement_obj \<Rightarrow> requirement_obj"
  e_Wheel :: "world \<Rightarrow> path \<Rightarrow> error + (error + wheel_metadata)"
  e_get_pyproject :: "world \<Rightarrow> path option \<Rightarrow> error + (string list \<times> string) option"
  e_get_default_pyproject_backend :: string
  e_isolated_build ::
    "world \<Rightarrow> path option \<Rightarrow> string list \<Rightarrow> string \<Rightarrow> path \<Rightarrow> string \<Rightarrow> (error + string) \<times> world"
  e_exec :: "world \<Rightarrow> path \<Rightarrow> string list \<Rightarrow> error option \<times> world"
  e_run :: "world \<Rightarrow> string list \<Rightarrow> path \<Rightarrow> error option \<times> world"
  e_python :: string
  e_SpecifierSet :: "string \<Rightarrow> error + string list"
  e_str_set_order :: "string list \<Rightarrow> string list"
  e_extras_set_order ::
    "(string \<times> BaseRequirement list) list \<Rightarrow> (string \<times> BaseRequirement list) list"

text \<open>
  A method mutates \<open>self\<close> and the world and returns or raises; what it changed before
  raising stays changed.
\<close>

type_synonym 'a outcome = "(error + 'a) \<times> SetupInfo \<times> world"

fun obind :: "'a outcome \<Rightarrow> ('a \<Rightarrow> SetupInfo \<Rightarrow> world \<Rightarrow> 'b outcome) \<Rightarrow> 'b outcome" where
  "obind (Inl e, self, w) f = (Inl e, self, w)"
| "obind (Inr x, self, w) f = f x self w"

text \<open>\<open>try: ... except ...: handler\<close>, the handler deciding which exceptions it takes.\<close>

fun catch ::
  "'a outcome \<Rightarrow> (error \<Rightarrow> SetupInfo \<Rightarrow> world \<Rightarrow> 'a outcome) \<Rightarrow> 'a outcome" where
  "catch (Inl e, self, w) handler = handler e self w"
| "catch (Inr x, self, w) handler = (Inr x, self, w)"

text \<open>Truth values of the optional fields.\<close>

definition falsy_str :: "string option \<Rightarrow> bool" where
  "falsy_str v = (case v of None \<Rightarrow> True | Some s \<Rightarrow> s = [])"

definition falsy_metadata :: "md_item list option \<Rightarrow> bool" where
  "falsy_metadata v = (case v of None \<Rightarrow> True | Some t \<Rightarrow> t = [])"

definition falsy_spec :: "py_spec option \<Rightarrow> bool" where
  "falsy_spec v =
     (case v of None \<Rightarrow> True | Some (SpecStr s) \<Rightarrow> s = [] | Some (SpecifierSet l) \<Rightarrow> l = [])"

text \<open>\<open>getattr(self.ireq, "extras", None)\<close>, and its elements when it is truthy.\<close>

definition ireq_extras_or_empty :: "SetupInfo \<Rightarrow> string list" where
  "ireq_extras_or_empty self = (case si_ireq self of None \<Rightarrow> [] | Some i \<Rightarrow> ireq_extras i)"

subsection \<open>File-system operations\<close>

definition as_posix :: "path \<Rightarrow> string" where
  "as_posix p = (if p = [] then ''/'' else concat (map (\<lambda>c. ''/'' @ c) p))"

definition Path_exists :: "world \<Rightarrow> path option \<Rightarrow> error + bool" where
  "Path_exists w p = (case p of None \<Rightarrow> Inl AttributeError | Some q \<Rightarrow> Inr (path_exists w q))"

text \<open>\<open>Path.mkdir(parents=True, exist_ok=True)\<close>: fails when a component is a file.\<close>

definition mkdir_p :: "world \<Rightarrow> path \<Rightarrow> error + world" where
  "mkdir_p w p =
     (let prefixes = map (\<lambda>n. take n p) [1..<Suc (length p)]
      in if filter (\<lambda>q. case map_of (w_fs w) q of Some (File _) \<Rightarrow> True | _ \<Rightarrow> False) prefixes \<noteq> []
         then Inl OSError
         else Inr (w\<lparr>w_fs := w_fs w
                     @ map (\<lambda>q. (q, Dir)) (filter (\<lambda>q. map_of (w_fs w) q = None) prefixes)\<rparr>))"

text \<open>\<open>Path.write_text\<close>: the parent must be a directory and the path itself not one.\<close>

definition write_text :: "world \<Rightarrow> path \<Rightarrow> string \<Rightarrow> error + world" where
  "write_text w p text =
     (if is_dir w (butlast p) \<and> \<not> is_dir w p
      then Inr (w\<lparr>w_fs := dict_set (w_fs w) p (File text)\<rparr>)
      else Inl OSError)"




text \<open>
  The context manager \<open>cd\<close> of \<open>vistir\<close>: a falsy path makes the generator return without
  yielding, which \<open>contextlib\<close> reports as \<open>RuntimeError\<close>; \<open>os.chdir\<close> raises when the
  target is not a directory; the previous working directory is restored on every exit.
\<close>

definition cd ::
  "path option \<Rightarrow> SetupInfo \<Rightarrow> world \<Rightarrow> (SetupInfo \<Rightarrow> world \<Rightarrow> 'a outcome) \<Rightarrow> 'a outcome" where
  "cd path self w body =
     (case path of
        None \<Rightarrow> (Inl RuntimeError, self, w)
      | Some d \<Rightarrow>
          if \<not> is_dir w d then (Inl OSError, self, w)
          else (case body self (w\<lparr>w_cwd := d\<rparr>) of
                  (r, self', w') \<Rightarrow> (r, self', w'\<lparr>w_cwd := w_cwd w\<rparr>)))"

subsection \<open>Properties\<close>

text \<open>
  \<open>requires\<close> builds \<open>{req.name: req.requirement for req in self._requirements}\<close>. The
  dictionary is represented by the set it is built from; a bare value in the set has no
  attribute \<open>requirement\<close> (or no \<open>name\<close>), so the comprehension raises.
\<close>

definition SetupInfo_requires :: "SetupInfo \<Rightarrow> error + req_item set" where
  "SetupInfo_requires self =
     (if Set.filter is_Raw (si_requirements self) \<noteq> {} then Inl AttributeError
      else Inr (si_requirements self))"

definition SetupInfo_extras :: "env \<Rightarrow> SetupInfo \<Rightarrow> (string \<times> reqval list) list" where
  "SetupInfo_extras env self =
     fold (\<lambda>(section, deps) extras_dict. dict_set extras_dict section (map br_requirement deps))
       (e_extras_set_order env (si_extras_requirements self)) []"

definition kwargs_get :: "SetupInfo \<Rightarrow> string \<Rightarrow> error + path" where
  "kwargs_get self key =
     (case si_extra_kwargs self of
        None \<Rightarrow> Inl TypeError
      | Some kw \<Rightarrow> (case map_of kw key of None \<Rightarrow> Inl KeyError | Some v \<Rightarrow> Inr v))"

text \<open>
  \<open>egg_base\<close> leaves \<open>self\<close> alone but registers a clean-up and creates the directory.
  (After \<open>base = Path(self.base_dir)\<close> the second test \<open>base is None\<close> cannot hold.)
\<close>

definition egg_base :: "SetupInfo \<Rightarrow> world \<Rightarrow> (error + path) \<times> world" where
  "egg_base self w =
     (case ebind (Path_exists w (si_setup_py self)) (\<lambda>e1.
             if e1 then Inr (map_option butlast (si_setup_py self))
             else ebind (Path_exists w (si_pyproject self)) (\<lambda>e2.
               if e2 then Inr (map_option butlast (si_pyproject self))
               else ebind (Path_exists w (si_setup_cfg self)) (\<lambda>e3.
                 if e3 then Inr (map_option butlast (si_setup_cfg self)) else Inr None))) of
        Inl e \<Rightarrow> (Inl e, w)
      | Inr base \<Rightarrow>
          (case (case base of
                   Some b \<Rightarrow> Inr b
                 | None \<Rightarrow> (case si_base_dir self of None \<Rightarrow> Inl TypeError | Some b \<Rightarrow> Inr b)) of
             Inl e \<Rightarrow> (Inl e, w)
           | Inr base \<Rightarrow>
               (let egg_base = base @ [''reqlib-metadata''];
                    w1 = (if \<not> path_exists w egg_base
                          then w\<lparr>w_atexit := w_atexit w @ [egg_base]\<rparr> else w)
                in case mkdir_p w1 egg_base of
                     Inl e \<Rightarrow> (Inl e, w1)
                   | Inr w2 \<Rightarrow> (Inr egg_base, w2))))"

subsection \<open>populate_metadata\<close>

definition metadata_tuple :: "metadata \<Rightarrow> md_item list" where
  "metadata_tuple metadata =
     [MdKey ''name'', MdStr (md_name metadata), MdKey ''version'', MdStr (md_version metadata),
      MdKey ''requires'', MdReqs (md_requires metadata)]
     @ map (\<lambda>(extra, reqs). MdExtra extra reqs) (md_extras metadata)"

text \<open>The loop \<open>for extra in self.ireq.extras\<close> of \<open>populate_metadata\<close>.\<close>

fun populate_extras_loop ::
  "(string \<Rightarrow> error + requirement_obj) \<Rightarrow> metadata \<Rightarrow> string list \<Rightarrow> SetupInfo \<Rightarrow> world
     \<Rightarrow> unit outcome" where
  "populate_extras_loop parse metadata [] self w = (Inr (), self, w)"
| "populate_extras_loop parse metadata (extra # rest) self w =
     (let extras = (case map_of (md_extras metadata) extra of None \<Rightarrow> [] | Some rs \<Rightarrow> rs)
      in if extras \<noteq> [] then
           (case ensure_reqs parse (map RObj extras) of
              Inl e \<Rightarrow> (Inl e, self, w)
            | Inr reqs \<Rightarrow>
                (let extras_tuple = map (\<lambda>req. from_req (RObj req)) reqs
                 in populate_extras_loop parse metadata rest
                      (self\<lparr>si_extras_requirements :=
                               si_extras_requirements self @ [(extra, extras_tuple)],
                            si_requirements := si_requirements self \<union> set (map BR extras_tuple)\<rparr>)
                      w))
         else populate_extras_loop parse metadata rest self w)"

definition populate_metadata :: "env \<Rightarrow> metadata \<Rightarrow> SetupInfo \<Rightarrow> world \<Rightarrow> unit outcome" where
  "populate_metadata env metadata self w =
     (let self = self\<lparr>si_metadata := Some (metadata_tuple metadata)\<rparr>;
          self = (if si_name self = None then self\<lparr>si_name := md_name metadata\<rparr> else self);
          self = (if falsy_str (si_version self) then self\<lparr>si_version := md_version metadata\<rparr>
                  else self);
          self = self\<lparr>si_requirements :=
                   si_requirements self
                   \<union> set (map (\<lambda>req. BR (from_req (RObj req))) (md_requires metadata))\<rparr>
      in populate_extras_loop (pe_Requirement_parse (e_probe env)) metadata
           (ireq_extras_or_empty self) self w)"

subsection \<open>get_egg_metadata and the wheel method\<close>

definition get_egg_metadata ::
  "env \<Rightarrow> path option \<Rightarrow> string option \<Rightarrow> SetupInfo \<Rightarrow> world \<Rightarrow> unit outcome" where
  "get_egg_metadata env metadata_dir metadata_type self w =
     (let package_indicators = [si_pyproject self, si_setup_py self, si_setup_cfg self];
          any_indicator =
            (filter (\<lambda>fn. case fn of None \<Rightarrow> False | Some p \<Rightarrow> path_exists w p)
               package_indicators \<noteq> []);
          dirs =
            (if any_indicator then
               (case kwargs_get self ''build_dir'' of
                  Inl e \<Rightarrow> (Inl e, w)
                | Inr build_dir \<Rightarrow>
                    (case egg_base self w of
                       (Inl e, w1) \<Rightarrow> (Inl e, w1)
                     | (Inr eb, w1) \<Rightarrow>
                         (case kwargs_get self ''src_dir'' of
                            Inl e \<Rightarrow> (Inl e, w1)
                          | Inr src_dir \<Rightarrow> (Inr [build_dir, eb, src_dir], w1))))
             else (Inr [], w))
      in case dirs of
           (Inl e, w1) \<Rightarrow> (Inl e, self, w1)
         | (Inr metadata_dirs, w1) \<Rightarrow>
             (let metadata_dirs =
                    (case metadata_dir of None \<Rightarrow> metadata_dirs | Some d \<Rightarrow> d # metadata_dirs)
              in case map_err (\<lambda>d. get_metadata (e_probe env) w1 d (si_name self) metadata_type)
                        (filter (path_exists w1) metadata_dirs) of
                   Inl e \<Rightarrow> (Inl e, self, w1)
                 | Inr found \<Rightarrow>
                     (case first_or_None (List.map_filter id found) of
                        None \<Rightarrow> (Inr (), self, w1)
                      | Some metadata \<Rightarrow> populate_metadata env metadata self w1)))"

definition SetupInfo_get_metadata_from_wheel ::
  "env \<Rightarrow> path \<Rightarrow> SetupInfo \<Rightarrow> world \<Rightarrow> unit outcome" where
  "SetupInfo_get_metadata_from_wheel env wheel_path self w =
     (case get_metadata_from_wheel (e_Wheel env) (ce_init_requirement (e_cfg env))
             (e_strip_extras_markers_from_requirement env) w wheel_path of
        Inl e \<Rightarrow> (Inl e, self, w)
      | Inr metadata_dict \<Rightarrow> populate_metadata env metadata_dict self w)"

subsection \<open>parse_setup_cfg and run_pyproject\<close>

text \<open>The loop \<open>for extra in self.ireq.extras\<close> of the method \<open>parse_setup_cfg\<close>.\<close>

fun cfg_extras_loop :: "env \<Rightarrow> string list \<Rightarrow> SetupInfo \<Rightarrow> SetupInfo" where
  "cfg_extras_loop env [] self = self"
| "cfg_extras_loop env (extra # rest) self =
     (case map_of (SetupInfo_extras env self) extra of
        None \<Rightarrow> cfg_extras_loop env rest self
      | Some reqs \<Rightarrow>
          (let extras_tuple = map from_req reqs
           in cfg_extras_loop env rest
                (self\<lparr>si_extras_requirements :=
                         si_extras_requirements self @ [(extra, extras_tuple)],
                      si_requirements := si_requirements self \<union> set (map BR extras_tuple)\<rparr>)))"

text \<open>
  \<open>parsed.get("build_requires", [])\<close> is the text of the option, so \<open>set(build_requires)\<close>
  is the set of its characters.
\<close>

definition SetupInfo_parse_setup_cfg :: "env \<Rightarrow> SetupInfo \<Rightarrow> world \<Rightarrow> unit outcome" where
  "SetupInfo_parse_setup_cfg env self w =
     (case si_setup_cfg self of
        None \<Rightarrow> (Inr (), self, w)
      | Some setup_cfg \<Rightarrow>
          if \<not> path_exists w setup_cfg then (Inr (), self, w)
          else
            (case parse_setup_cfg (e_cfg env) w setup_cfg of
               Inl e \<Rightarrow> (Inl e, self, w)
             | Inr None \<Rightarrow> (Inl AttributeError, self, w)
             | Inr (Some parsed) \<Rightarrow>
                 (let self = (if si_name self = None then self\<lparr>si_name := res_name parsed\<rparr>
                              else self);
                      self = (if si_version self = None
                              then self\<lparr>si_version := res_version parsed\<rparr> else self);
                      build_requires =
                        (case res_build_requires parsed of
                           None \<Rightarrow> [] | Some text \<Rightarrow> map (\<lambda>c. [c]) text);
                      self = (if si_build_requires self \<noteq> []
                              then self\<lparr>si_build_requires :=
                                     e_str_set_order env (si_build_requires self @ build_requires)\<rparr>
                              else self)
                  in case res_install_requires parsed of
                       None \<Rightarrow> (Inl KeyError, self, w)
                     | Some install_requires \<Rightarrow>
                         (let self = self\<lparr>si_requirements :=
                                       si_requirements self \<union> BR ` install_requires\<rparr>;
                              self = (if si_python_requires self = None
                                      then self\<lparr>si_python_requires :=
                                             map_option SpecStr (res_python_requires parsed)\<rparr>
                                      else self)
                          in case res_extras_require parsed of
                               None \<Rightarrow> (Inl KeyError, self, w)
                             | Some extras_require \<Rightarrow>
                                 (let self =
                                        (if si_extras_requirements self = []
                                         then self\<lparr>si_extras_requirements := extras_require\<rparr>
                                         else self\<lparr>si_extras_requirements :=
                                                si_extras_requirements self @ extras_require\<rparr>)
                                  in (Inr (),
                                      cfg_extras_loop env (ireq_extras_or_empty self) self,
                                      w))))))"

definition run_pyproject :: "env \<Rightarrow> SetupInfo \<Rightarrow> world \<Rightarrow> unit outcome" where
  "run_pyproject env self w =
     (case si_pyproject self of
        None \<Rightarrow> (Inr (), self, w)
      | Some pyproject \<Rightarrow>
          if \<not> path_exists w pyproject then (Inr (), self, w)
          else
            (case e_get_pyproject env w (Some (butlast pyproject)) of
               Inl e \<Rightarrow> (Inl e, self, w)
             | Inr None \<Rightarrow> (Inr (), self, w)
             | Inr (Some (requires, backend)) \<Rightarrow>
                 (let self = self\<lparr>si_build_backend :=
                               (if backend \<noteq> [] then backend
                                else e_get_default_pyproject_backend env)\<rparr>;
                      self = self\<lparr>si_build_requires :=
                               (if requires \<noteq> []
                                then e_str_set_order env (requires @ si_build_requires self)
                                else [''setuptools'', ''wheel''])\<rparr>
                  in (Inr (), self, w))))"

subsection \<open>The isolated build\<close>

text \<open>
  \<open>requires, backend = get_pyproject(source_dir)\<close> raises \<open>TypeError\<close> when
  \<open>get_pyproject\<close> returns \<open>None\<close>.
\<close>

definition build_pep517 ::
  "env \<Rightarrow> world \<Rightarrow> path option \<Rightarrow> path \<Rightarrow> string \<Rightarrow> (error + string) \<times> world" where
  "build_pep517 env w source_dir build_dir dist_type =
     (case e_get_pyproject env w source_dir of
        Inl e \<Rightarrow> (Inl e, w)
      | Inr None \<Rightarrow> (Inl TypeError, w)
      | Inr (Some (requires, backend)) \<Rightarrow>
          e_isolated_build env w source_dir requires backend build_dir dist_type)"

fun join :: "string \<Rightarrow> string list \<Rightarrow> string" where
  "join sep [] = []"
| "join sep [x] = x"
| "join sep (x # y # ys) = x @ sep @ join sep (y # ys)"

definition pyproject_text :: "string list \<Rightarrow> string \<Rightarrow> string" where
  "pyproject_text build_requires build_backend =
     strip ([CHR 0x0A] @ ''[build-system]'' @ [CHR 0x0A]
            @ ''requires = ['' @ join '', '' (map (\<lambda>r. [CHR 0x22] @ r @ [CHR 0x22]) build_requires)
            @ '']'' @ [CHR 0x0A]
            @ ''build-backend = '' @ [CHR 0x22] @ build_backend @ [CHR 0x22] @ [CHR 0x0A]
            @ replicate 12 CHR '' '')"

text \<open>\<open>build_wheel\<close> and \<open>build_sdist\<close> differ in the kind of distribution only.\<close>

definition build_dist :: "env \<Rightarrow> string \<Rightarrow> SetupInfo \<Rightarrow> world \<Rightarrow> (error + string) \<times> world" where
  "build_dist env dist_type self w =
     (case Path_exists w (si_pyproject self) of
        Inl e \<Rightarrow> (Inl e, w)
      | Inr ex \<Rightarrow>
          (case (if \<not> ex
                 then write_text w (the (si_pyproject self))
                        (pyproject_text (si_build_requires self) (si_build_backend self))
                 else Inr w) of
             Inl e \<Rightarrow> (Inl e, w)
           | Inr w1 \<Rightarrow>
               (case kwargs_get self ''build_dir'' of
                  Inl e \<Rightarrow> (Inl e, w1)
                | Inr build_dir \<Rightarrow> build_pep517 env w1 (si_base_dir self) build_dir dist_type)))"

definition build_wheel :: "env \<Rightarrow> SetupInfo \<Rightarrow> world \<Rightarrow> (error + string) \<times> world" where
  "build_wheel env self w = build_dist env ''wheel'' self w"

definition build_sdist :: "env \<Rightarrow> SetupInfo \<Rightarrow> world \<Rightarrow> (error + string) \<times> world" where
  "build_sdist env self w = build_dist env ''sdist'' self w"

subsection \<open>run_setup\<close>

text \<open>
  \<open>for extra, extra_requires in dist.extras_require\<close> iterates over the keys of the
  dictionary and unpacks each key, a string, into two names: a key of two characters
  gives two one-character strings, any other key raises \<open>ValueError\<close>, after which the
  entries appended for the keys before it are still there.
\<close>

fun dist_extras_loop :: "string list \<Rightarrow> SetupInfo \<Rightarrow> world \<Rightarrow> unit outcome" where
  "dist_extras_loop [] self w = (Inr (), self, w)"
| "dist_extras_loop (key # rest) self w =
     (case key of
        [extra, extra_requires] \<Rightarrow>
          dist_extras_loop rest
            (self\<lparr>si_extras_requirements :=
                     si_extras_requirements self @ [([extra], [from_req (RStr [extra_requires])])]\<rparr>)
            w
      | _ \<Rightarrow> (Inl ValueError, self, w))"

text \<open>
  What \<open>run_setup\<close> does with the distribution object it found in \<open>_setup_distribution\<close>.
\<close>

definition harvest_distribution :: "env \<Rightarrow> setup_dist \<Rightarrow> SetupInfo \<Rightarrow> world \<Rightarrow> unit outcome" where
  "harvest_distribution env dist self w =
     (let name = sd_get_name dist;
          self = (if name \<noteq> [] then self\<lparr>si_name := Some name\<rparr> else self)
      in case (if falsy_str (sd_python_requires dist) then Inr self
               else if falsy_spec (si_python_requires self)
               then ebind (e_SpecifierSet env (the (sd_python_requires dist)))
                      (\<lambda>sp. Inr (self\<lparr>si_python_requires := Some (SpecifierSet sp)\<rparr>))
               else Inr self) of
           Inl e \<Rightarrow> (Inl e, self, w)
         | Inr self \<Rightarrow>
             (let self = (if si_extras_requirements self = []
                          then self\<lparr>si_extras_requirements := []\<rparr> else self)
              in case (if sd_extras_require dist \<noteq> [] \<and> SetupInfo_extras env self = []
                       then dist_extras_loop (map fst (sd_extras_require dist)) self w
                       else (Inr (), self, w)) of
                   (Inl e, self, w) \<Rightarrow> (Inl e, self, w)
                 | (Inr u, self, w) \<Rightarrow>
                     (let install_requires = sd_get_requires dist;
                          install_requires =
                            (if install_requires = [] then sd_install_requires dist
                             else install_requires)
                      in case (if install_requires = [] then Inr self
                               else ebind (SetupInfo_requires self) (\<lambda>rs.
                                 if rs = {} then
                                   (let requirements =
                                          set (map (\<lambda>req. BR (from_req (RStr req))) install_requires);
                                        requirements =
                                          fold (\<lambda>extra requirements.
                                                  requirements
                                                  \<union> set (map Raw
                                                       (case map_of (SetupInfo_extras env self) extra of
                                                          None \<Rightarrow> [] | Some rs \<Rightarrow> rs)))
                                            (ireq_extras_or_empty self) requirements
                                    in Inr (self\<lparr>si_requirements :=
                                                   si_requirements self \<union> requirements\<rparr>))
                                 else Inr self)) of
                           Inl e \<Rightarrow> (Inl e, self, w)
                         | Inr self \<Rightarrow>
                             (let self = (if sd_setup_requires dist \<noteq> []
                                               \<and> si_setup_requires self = []
                                          then self\<lparr>si_setup_requires := sd_setup_requires dist\<rparr>
                                          else self);
                                  self = (if falsy_str (si_version self)
                                          then self\<lparr>si_version := Some (sd_get_version dist)\<rparr>
                                          else self)
                              in (Inr (), self, w)))))"

text \<open>
  The script is opened and executed in process; a \<open>NameError\<close> sends it to a
  subprocess instead. Afterwards the module global decides between the installed-metadata
  probe and the distribution object.
\<close>

definition run_setup :: "env \<Rightarrow> SetupInfo \<Rightarrow> world \<Rightarrow> unit outcome" where
  "run_setup env self w =
     (case si_setup_py self of
        None \<Rightarrow> (Inr (), self, w)
      | Some setup_py \<Rightarrow>
          if \<not> path_exists w setup_py then (Inr (), self, w)
          else
            cd (Some (butlast setup_py)) self w (\<lambda>self w.
              case egg_base self w of
                (Inl e, w1) \<Rightarrow> (Inl e, self, w1)
              | (Inr eb, w1) \<Rightarrow>
                  (let args = [''egg_info'', ''--egg-base'', as_posix eb];
                       executed =
                         (case read_file w1 setup_py of
                            Inl e \<Rightarrow> (Some e, w1)
                          | Inr _ \<Rightarrow> e_exec env w1 setup_py args);
                       finished =
                         (case executed of
                            (Some e, w2) \<Rightarrow>
                              if is_NameError e
                              then e_run env w2 ([e_python env, ''setup.py''] @ args)
                                     (butlast setup_py)
                              else (Some e, w2)
                          | (None, w2) \<Rightarrow> (None, w2))
                   in case finished of
                        (Some e, w3) \<Rightarrow> (Inl e, self, w3)
                      | (None, w3) \<Rightarrow>
                          (case w_setup_distribution w3 of
                             None \<Rightarrow> get_egg_metadata env None None self w3
                           | Some dist \<Rightarrow> harvest_distribution env dist self w3))))"

subsection \<open>build, get_info, reload, as_dict, create\<close>

definition build :: "env \<Rightarrow> SetupInfo \<Rightarrow> world \<Rightarrow> unit outcome" where
  "build env self w =
     obind (case build_wheel env self w of
              (Inl e, w1) \<Rightarrow>
                if is_Exception e then
                  catch (case build_sdist env self w1 of
                           (Inl e2, w2) \<Rightarrow> (Inl e2, self, w2)
                         | (Inr dist_path, w2) \<Rightarrow>
                             get_egg_metadata env None (Some ''egg'') self w2)
                    (\<lambda>e2 self w. if is_Exception e2 then (Inr (), self, w) else (Inl e2, self, w))
                else (Inl e, self, w1)
            | (Inr dist_path, w1) \<Rightarrow>
                (case kwargs_get self ''build_dir'' of
                   Inl e \<Rightarrow> (Inl e, self, w1)
                 | Inr build_dir \<Rightarrow>
                     SetupInfo_get_metadata_from_wheel env (build_dir @ [dist_path]) self w1))
       (\<lambda>u self w.
     obind (if falsy_metadata (si_metadata self) \<or> falsy_str (si_name self)
            then get_egg_metadata env None None self w else (Inr (), self, w)) (\<lambda>u self w.
     if falsy_metadata (si_metadata self) \<or> falsy_str (si_name self)
     then run_setup env self w else (Inr (), self, w)))"

text \<open>The values of the output mapping and their truth values.\<close>

datatype pyval =
    VNone
  | VStr string
  | VPath path
  | VIreq InstallRequirement
  | VTuple "string list"
  | VRequires "req_item set"
  | VSpec py_spec
  | VExtras "(string \<times> reqval list) list"
  | VKwargs "(string \<times> path) list"

fun truthy :: "pyval \<Rightarrow> bool" where
  "truthy VNone = False"
| "truthy (VStr s) = (s \<noteq> [])"
| "truthy (VPath p) = True"
| "truthy (VIreq i) = True"
| "truthy (VTuple t) = (t \<noteq> [])"
| "truthy (VRequires r) = (r \<noteq> {})"
| "truthy (VSpec (SpecStr s)) = (s \<noteq> [])"
| "truthy (VSpec (SpecifierSet l)) = (l \<noteq> [])"
| "truthy (VExtras d) = (d \<noteq> [])"
| "truthy (VKwargs d) = (d \<noteq> [])"

definition opt_val :: "('a \<Rightarrow> pyval) \<Rightarrow> 'a option \<Rightarrow> pyval" where
  "opt_val f v = (case v of None \<Rightarrow> VNone | Some x \<Rightarrow> f x)"

text \<open>
  The dictionary \<open>prop_dict\<close> of \<open>as_dict\<close>; \<open>rs\<close> is the value of \<open>self.requires\<close>.
\<close>

definition prop_dict :: "env \<Rightarrow> SetupInfo \<Rightarrow> req_item set \<Rightarrow> (string \<times> pyval) list" where
  "prop_dict env self rs =
     [(''name'', opt_val VStr (si_name self)),
      (''version'', opt_val VStr (si_version self)),
      (''base_dir'', opt_val VPath (si_base_dir self)),
      (''ireq'', opt_val VIreq (si_ireq self)),
      (''build_backend'', VStr (si_build_backend self)),
      (''build_requires'', VTuple (si_build_requires self)),
      (''requires'', VRequires rs),
      (''setup_requires'', VTuple (si_setup_requires self)),
      (''python_requires'', opt_val VSpec (si_python_requires self)),
      (''extras'', VExtras (SetupInfo_extras env self)),
      (''extra_kwargs'', opt_val VKwargs (si_extra_kwargs self)),
      (''setup_cfg'', opt_val VPath (si_setup_cfg self)),
      (''setup_py'', opt_val VPath (si_setup_py self)),
      (''pyproject'', opt_val VPath (si_pyproject self))]"

definition as_dict :: "env \<Rightarrow> SetupInfo \<Rightarrow> error + (string \<times> pyval) list" where
  "as_dict env self =
     ebind (SetupInfo_requires self) (\<lambda>rs.
       Inr (filter (\<lambda>(k, v). truthy v) (prop_dict env self rs)))"

definition get_info :: "env \<Rightarrow> SetupInfo \<Rightarrow> world \<Rightarrow> (string \<times> pyval) list outcome" where
  "get_info env self w =
     obind (case si_setup_cfg self of
              None \<Rightarrow> (Inr (), self, w)
            | Some setup_cfg \<Rightarrow>
                if path_exists w setup_cfg
                then cd (si_base_dir self) self w (SetupInfo_parse_setup_cfg env)
                else (Inr (), self, w)) (\<lambda>u self w.
     obind (cd (si_base_dir self) self w (\<lambda>self w.
              obind (run_pyproject env self w) (\<lambda>u. build env))) (\<lambda>u self w.
     obind (case si_setup_py self of
              None \<Rightarrow> (Inr (), self, w)
            | Some setup_py \<Rightarrow>
                if path_exists w setup_py \<and> si_metadata self = None then
                  (case SetupInfo_requires self of
                     Inl e \<Rightarrow> (Inl e, self, w)
                   | Inr rs \<Rightarrow>
                       if rs = {} \<or> falsy_str (si_name self) then
                         obind (catch (cd (si_base_dir self) self w (run_setup env))
                                  (\<lambda>e self w.
                                     if is_Exception e
                                     then cd (si_base_dir self) self w
                                            (get_egg_metadata env None None)
                                     else (Inl e, self, w))) (\<lambda>u self w.
                         if si_metadata self = None \<or> falsy_str (si_name self)
                         then cd (si_base_dir self) self w (get_egg_metadata env None None)
                         else (Inr (), self, w))
                       else (Inr (), self, w))
                else (Inr (), self, w)) (\<lambda>u self w.
     case as_dict env self of
       Inl e \<Rightarrow> (Inl e, self, w)
     | Inr d \<Rightarrow> (Inr d, self, w))))"


text \<open>
  \<open>create\<close>: the constructor's defaults, the three paths derived from \<open>base_dir\<close> and
  \<open>subdirectory\<close>, then \<open>get_info\<close>. A falsy \<open>base_dir\<close> is \<open>None\<close> here.
\<close>

definition create ::
  "env \<Rightarrow> path option \<Rightarrow> path option \<Rightarrow> InstallRequirement option
     \<Rightarrow> (string \<times> path) list option \<Rightarrow> world \<Rightarrow> (error + SetupInfo option) \<times> world" where
  "create env base_dir subdirectory ireq kwargs w =
     (case base_dir of
        None \<Rightarrow> (Inr None, w)
      | Some base \<Rightarrow>
          (let pyproject = base @ [''pyproject.toml''];
               sub = (case subdirectory of None \<Rightarrow> base | Some d \<Rightarrow> base @ d);
               created =
                 \<lparr>si_name = None, si_base_dir = Some base, si_version = None,
                  si_requirements = {}, si_build_requires = [],
                  si_build_backend = e_get_default_pyproject_backend env,
                  si_setup_requires = [], si_python_requires = None,
                  si_extras_requirements = [],
                  si_setup_cfg = Some (sub @ [''setup.cfg'']),
                  si_setup_py = Some (sub @ [''setup.py'']),
                  si_pyproject = Some pyproject,
                  si_ireq = ireq, si_extra_kwargs = kwargs, si_metadata = None\<rparr>
           in case get_info env created w of
                (Inl e, self, w') \<Rightarrow> (Inl e, w')
              | (Inr d, self, w') \<Rightarrow> (Inr (Some self), w')))"

section \<open>What a resolution pass leaves alone\<close>

text \<open>
  Relations between the aggregate before and after a method. \<open>kept_fields\<close>: the four
  locations are the same, a version that was known has kept its value, and a name that
  was set is still set. \<open>name_kept\<close>: a name that was set has kept its value. \<open>keeps\<close>
  says such a relation of the state a method returns or raises with.
\<close>

definition kept_fields :: "SetupInfo \<Rightarrow> SetupInfo \<Rightarrow> bool" where
  "kept_fields s s' =
     (si_base_dir s' = si_base_dir s \<and> si_setup_cfg s' = si_setup_cfg s
      \<and> si_setup_py s' = si_setup_py s \<and> si_pyproject s' = si_pyproject s
      \<and> (falsy_str (si_version s) \<or> si_version s' = si_version s)
      \<and> (si_name s = None \<or> si_name s' \<noteq> None))"

definition name_kept :: "SetupInfo \<Rightarrow> SetupInfo \<Rightarrow> bool" where
  "name_kept s s' = (si_name s = None \<or> si_name s' = si_name s)"

definition keeps :: "(SetupInfo \<Rightarrow> SetupInfo \<Rightarrow> bool) \<Rightarrow> SetupInfo \<Rightarrow> 'a outcome \<Rightarrow> bool" where
  "keeps R self out = R self (fst (snd out))"

section \<open>Concrete inputs\<close>

text \<open>The inputs at which the theorems below are evaluated.\<close>

definition no_modules :: "string \<Rightarrow> error + (string \<times> attrval) list" where
  "no_modules name = Inl ImportError"

definition plain_requirement :: "string \<Rightarrow> error + requirement_obj" where
  "plain_requirement line =
     (let name = takeWhile (\<lambda>c. c \<notin> set ''; <>=!~['') line
      in if name = [] then Inl (OtherError ''RequirementParseError'')
         else Inr \<lparr>req_key = Some (lower name), req_name = Some name,
                   req_project_name = Some name, req_str = line, req_marker = None\<rparr>)"

definition empty_world :: world where
  "empty_world = \<lparr>w_fs = [], w_cwd = [], w_setup_distribution = None, w_atexit = []\<rparr>"

definition cfg_world :: world where
  "cfg_world =
     \<lparr>w_fs = [([''pkg''], Dir), ([''pkg'', ''setup.cfg''], File [])], w_cwd = [],
      w_setup_distribution = None, w_atexit = []\<rparr>"

definition no_sections :: "world \<Rightarrow> path \<Rightarrow> error + config_file" where
  "no_sections w p = Inr \<lparr>cf_default = [], cf_sections = []\<rparr>"

definition cfg_env0 :: cfg_env where
  "cfg_env0 =
     \<lparr>ce_import_module = no_modules, ce_read_config = no_sections,
      ce_init_requirement = plain_requirement\<rparr>"

definition named_cfg :: config_file where
  "named_cfg =
     \<lparr>cf_default = [],
      cf_sections = [(''metadata'', [(''name'', ''pkg'')]),
                     (''options'', [(''install_requires'', ''foo'')])]\<rparr>"

definition named_sections :: "world \<Rightarrow> path \<Rightarrow> error + config_file" where
  "named_sections w p = Inr named_cfg"

definition cfg_env1 :: cfg_env where
  "cfg_env1 =
     \<lparr>ce_import_module = no_modules, ce_read_config = named_sections,
      ce_init_requirement = plain_requirement\<rparr>"

definition named_results :: cfg_results where
  "named_results =
     \<lparr>res_name = Some ''pkg'', res_version = None,
      res_install_requires =
        Some {\<lparr>br_name = Some ''foo'',
               br_requirement = RObj \<lparr>req_key = Some ''foo'', req_name = Some ''foo'',
                 req_project_name = Some ''foo'', req_str = ''foo'', req_marker = None\<rparr>\<rparr>},
      res_python_requires = None, res_build_requires = None, res_extras_require = Some []\<rparr>"

definition foo_req :: requirement_obj where
  "foo_req =
     \<lparr>req_key = Some ''foo'', req_name = Some ''foo'', req_project_name = Some ''foo'',
      req_str = ''foo'', req_marker = None\<rparr>"

definition sphinx_req :: requirement_obj where
  "sphinx_req =
     \<lparr>req_key = Some ''sphinx'', req_name = Some ''Sphinx'', req_project_name = Some ''Sphinx'',
      req_str = ''Sphinx'', req_marker = None\<rparr>"

text \<open>
  A distribution read from an egg-info directory whose \<open>requires.txt\<close> lists \<open>foo\<close> under
  the section \<open>:python_version<"3"\<close>, seen by an interpreter of version 3: \<open>requires()\<close>
  is empty, the dependency map has the section.
\<close>

definition py2_key :: string where
  "py2_key = '':python_version<'' @ [CHR 0x22] @ ''3'' @ [CHR 0x22]"

definition py2_dist :: pkg_dist where
  "py2_dist =
     \<lparr>pd_requires = Inr [], pd_build_dep_map = Inr [(Some py2_key, [foo_req])],
      pd_project_name = Some ''pkg'', pd_version = Inr (Some ''1.0'')\<rparr>"

definition foo_py2_req :: requirement_obj where
  "foo_py2_req =
     \<lparr>req_key = Some ''foo'', req_name = Some ''foo'', req_project_name = Some ''foo'',
      req_str = ''foo; python_version<'' @ [CHR 0x22] @ ''3'' @ [CHR 0x22], req_marker = None\<rparr>"

text \<open>
  A site directory with a legacy egg-info directory and a dist-info directory for the
  package \<open>pkg\<close>, the dist-info directory under its standard name, which carries the
  version. The egg-info directory is left over from version 0.9. \<open>pkg_resources\<close> reads
  from each metadata directory the distribution it describes, and for the site directory
  it reports the distribution of the dist-info directory.
\<close>

definition site_world :: world where
  "site_world =
     \<lparr>w_fs = [([''site''], Dir), ([''site'', ''pkg.egg-info''], Dir),
              ([''site'', ''pkg.egg-info'', ''PKG-INFO''], File []),
              ([''site'', ''pkg-1.0.dist-info''], Dir),
              ([''site'', ''pkg-1.0.dist-info'', ''METADATA''], File [])],
      w_cwd = [], w_setup_distribution = None, w_atexit = []\<rparr>"

definition same_name :: "string \<Rightarrow> string list" where
  "same_name n = [n]"

definition dist_info_dist :: pkg_dist where
  "dist_info_dist =
     \<lparr>pd_requires = Inr [foo_req], pd_build_dep_map = Inr [],
      pd_project_name = Some ''pkg'', pd_version = Inr (Some ''1.0'')\<rparr>"

definition egg_info_dist :: pkg_dist where
  "egg_info_dist =
     \<lparr>pd_requires = Inr [], pd_build_dep_map = Inr [],
      pd_project_name = Some ''pkg'', pd_version = Inr (Some ''0.9'')\<rparr>"

definition site_distributions :: "world \<Rightarrow> path \<Rightarrow> pkg_dist list" where
  "site_distributions w p = (if p = [''site''] then [dist_info_dist] else [])"

definition site_metadata :: "world \<Rightarrow> path \<Rightarrow> pkg_dist list" where
  "site_metadata w p =
     (if p = [''site'', ''pkg-1.0.dist-info''] then [dist_info_dist]
      else if p = [''site'', ''pkg.egg-info''] then [egg_info_dist] else [])"

definition no_distributions :: "world \<Rightarrow> path \<Rightarrow> pkg_dist list" where
  "no_distributions w p = []"

definition site_env :: probe_env where
  "site_env =
     \<lparr>pe_get_name_variants = same_name, pe_find_distributions = site_distributions,
      pe_distributions_from_metadata = site_metadata,
      pe_Requirement_parse = plain_requirement\<rparr>"

definition egg_entry :: DirEntry where
  "egg_entry =
     \<lparr>de_name = ''pkg.egg-info'', de_path = [''site'', ''pkg.egg-info''], de_is_dir = True\<rparr>"

definition dist_entry :: DirEntry where
  "dist_entry =
     \<lparr>de_name = ''pkg-1.0.dist-info'', de_path = [''site'', ''pkg-1.0.dist-info''],
      de_is_dir = True\<rparr>"

text \<open>
  Collaborators for a source directory in which every isolated build fails and nothing
  is installed, and an aggregate as \<open>create\<close> builds it for \<open>/src\<close>.
\<close>

definition bare_probe :: probe_env where
  "bare_probe =
     \<lparr>pe_get_name_variants = same_name, pe_find_distributions = no_distributions,
      pe_distributions_from_metadata = no_distributions,
      pe_Requirement_parse = plain_requirement\<rparr>"

definition keep_requirement :: "requirement_obj \<Rightarrow> requirement_obj" where
  "keep_requirement r = r"

definition no_wheel :: "world \<Rightarrow> path \<Rightarrow> error + (error + wheel_metadata)" where
  "no_wheel w p = Inl (OtherError ''DistlibException'')"

definition declared_pyproject ::
  "world \<Rightarrow> path option \<Rightarrow> error + (string list \<times> string) option" where
  "declared_pyproject w dir =
     (case dir of
        None \<Rightarrow> Inr None
      | Some d \<Rightarrow>
          if path_exists w (d @ [''pyproject.toml'']) \<or> path_exists w (d @ [''setup.py''])
          then Inr (Some ([''setuptools'', ''wheel''], ''setuptools.build_meta''))
          else Inr None)"

definition failing_build ::
  "world \<Rightarrow> path option \<Rightarrow> string list \<Rightarrow> string \<Rightarrow> path \<Rightarrow> string \<Rightarrow> (error + string) \<times> world" where
  "failing_build w source_dir reqs backend build_dir dist_type =
     (Inl (OtherError ''CalledProcessError''), w)"

definition quiet_exec :: "world \<Rightarrow> path \<Rightarrow> string list \<Rightarrow> error option \<times> world" where
  "quiet_exec w script args = (None, w)"

definition other_dist :: setup_dist where
  "other_dist =
     \<lparr>sd_get_name = ''pkgB'', sd_python_requires = None, sd_extras_require = [],
      sd_get_requires = [], sd_install_requires = [], sd_setup_requires = [],
      sd_get_version = ''2.0''\<rparr>"

definition registering_exec :: "world \<Rightarrow> path \<Rightarrow> string list \<Rightarrow> error option \<times> world" where
  "registering_exec w script args = (None, w\<lparr>w_setup_distribution := Some other_dist\<rparr>)"

definition quiet_run :: "world \<Rightarrow> string list \<Rightarrow> path \<Rightarrow> error option \<times> world" where
  "quiet_run w cmd cwd = (None, w)"

definition one_specifier :: "string \<Rightarrow> error + string list" where
  "one_specifier s = Inr [s]"

definition str_order :: "string list \<Rightarrow> string list" where
  "str_order xs = remdups xs"

definition extras_order ::
  "(string \<times> BaseRequirement list) list \<Rightarrow> (string \<times> BaseRequirement list) list" where
  "extras_order xs = remdups xs"

definition quiet_env :: env where
  "quiet_env =
     \<lparr>e_cfg = cfg_env0, e_probe = bare_probe,
      e_strip_extras_markers_from_requirement = keep_requirement, e_Wheel = no_wheel,
      e_get_pyproject = declared_pyproject,
      e_get_default_pyproject_backend = ''setuptools.build_meta'',
      e_isolated_build = failing_build, e_exec = quiet_exec, e_run = quiet_run,
      e_python = ''python'', e_SpecifierSet = one_specifier, e_str_set_order = str_order,
      e_extras_set_order = extras_order\<rparr>"

definition bare_world :: world where
  "bare_world =
     \<lparr>w_fs = [([''build''], Dir), ([''src''], Dir)], w_cwd = [],
      w_setup_distribution = None, w_atexit = []\<rparr>"

definition build_kwargs :: "(string \<times> path) list" where
  "build_kwargs =
     [(''build_dir'', [''build'']), (''src_dir'', [''src'']),
      (''download_dir'', [''cache'', ''pkgs'']),
      (''wheel_download_dir'', [''cache'', ''wheels''])]"

definition fresh_info :: SetupInfo where
  "fresh_info =
     \<lparr>si_name = None, si_base_dir = Some [''src''], si_version = None,
      si_requirements = {}, si_build_requires = [],
      si_build_backend = ''setuptools.build_meta'',
      si_setup_requires = [], si_python_requires = None, si_extras_requirements = [],
      si_setup_cfg = Some [''src'', ''setup.cfg''], si_setup_py = Some [''src'', ''setup.py''],
      si_pyproject = Some [''src'', ''pyproject.toml''], si_ireq = None,
      si_extra_kwargs = Some build_kwargs, si_metadata = None\<rparr>"

definition bare_output :: "(string \<times> pyval) list" where
  "bare_output =
     [(''base_dir'', VPath [''src'']), (''build_backend'', VStr ''setuptools.build_meta''),
      (''extra_kwargs'', VKwargs build_kwargs), (''setup_cfg'', VPath [''src'', ''setup.cfg'']),
      (''setup_py'', VPath [''src'', ''setup.py'']),
      (''pyproject'', VPath [''src'', ''pyproject.toml''])]"

text \<open>
  A source directory with a config file that names the package \<open>pkg\<close> and a legacy
  script whose execution registers a distribution named \<open>pkgB\<close>.
\<close>

definition legacy_env :: env where
  "legacy_env = quiet_env\<lparr>e_cfg := cfg_env1, e_exec := registering_exec\<rparr>"

definition legacy_world :: world where
  "legacy_world =
     \<lparr>w_fs = [([''build''], Dir), ([''src''], Dir),
              ([''src'', ''setup.cfg''], File []), ([''src'', ''setup.py''], File [])],
      w_cwd = [], w_setup_distribution = None, w_atexit = []\<rparr>"

definition named_info :: SetupInfo where
  "named_info = fresh_info\<lparr>si_name := Some ''pkgA''\<rparr>"



definition docs_info :: SetupInfo where
  "docs_info = fresh_info\<lparr>si_ireq := Some \<lparr>ireq_extras = [''docs'']\<rparr>\<rparr>"

definition docs_metadata :: metadata where
  "docs_metadata =
     \<lparr>md_name = Some ''pkg'', md_version = Some ''1.0'', md_requires = [foo_req],
      md_extras = [(''docs'', [sphinx_req])]\<rparr>"

text \<open>The contribution of the requested extras to the requirement set.\<close>

definition extras_contribution :: "metadata \<Rightarrow> string list \<Rightarrow> req_item set" where
  "extras_contribution metadata xs =
     (\<Union>extra \<in> set xs.
        set (map (\<lambda>req. BR (from_req (RObj req)))
              (case map_of (md_extras metadata) extra of None \<Rightarrow> [] | Some rs \<Rightarrow> rs)))"

section \<open>Results\<close>

subsection \<open>Auxiliary facts\<close>

lemma ebind_Inr: "ebind m f = Inr y \<longleftrightarrow> (\<exists>x. m = Inr x \<and> f x = Inr y)"
  by (cases m) auto

lemma ebind_InrE:
  assumes "ebind m f = Inr y"
  obtains x where "m = Inr x" and "f x = Inr y"
  using assms by (cases m) auto

lemma split_acc_not_Nil: "split_acc sep acc t \<noteq> []"
  by (induction sep acc t rule: split_acc.induct) auto

lemma split_acc_single: "split_acc sep acc t = [r] \<Longrightarrow> r = rev acc @ t"
  by (induction sep acc t rule: split_acc.induct) (auto simp: split_acc_not_Nil split: if_splits)

lemma split_prefix_two:
  "startswith s sep \<Longrightarrow> sep \<noteq> [] \<Longrightarrow> split s sep = [p, r] \<Longrightarrow> p = [] \<and> r = drop (length sep) s"
  by (cases s) (auto simp: startswith_def split_def dest: split_acc_single split: if_splits)

lemma drop_prefix5: "drop (length ''attr:'') s = drop 5 s" "drop (length ''file:'') s = drop 5 s"
  by (simp_all add: eval_nat_numeral)

lemma length_two: "length xs = 2 \<Longrightarrow> \<exists>a b. xs = [a, b]"
  by (cases xs; cases "tl xs") auto

lemma stage_upd:
  assumes "(if c then ebind g (\<lambda>v. ebind (h v) (\<lambda>v. Inr (upd v))) else Inr r0) = Inr r1"
  shows "(c \<longrightarrow> (\<exists>v. r1 = upd v)) \<and> (\<not> c \<longrightarrow> r1 = r0)"
  using assms by (auto simp: ebind_Inr split: if_splits)

lemma stage_upd1:
  assumes "(if c then ebind g (\<lambda>v. Inr (upd v)) else Inr r0) = Inr r1"
  shows "(c \<longrightarrow> (\<exists>v. r1 = upd v)) \<and> (\<not> c \<longrightarrow> r1 = r0)"
  using assms by (auto simp: ebind_Inr split: if_splits)

lemma stage_default:
  assumes "(if c then m else Inr d) = Inr x"
  shows "\<not> c \<longrightarrow> x = d"
  using assms by (auto split: if_splits)

lemma stage_keeps:
  assumes "(c \<longrightarrow> (\<exists>v. r1 = upd v)) \<and> (\<not> c \<longrightarrow> r1 = r0)"
    and "\<And>v. sel (upd v) = sel r0"
  shows "sel r1 = sel r0"
  using assms by (cases c) auto

lemma stage_sets:
  assumes "(c \<longrightarrow> (\<exists>v. r1 = upd v)) \<and> (\<not> c \<longrightarrow> r1 = r0)"
    and "\<And>v. sel (upd v) \<noteq> None" and "sel r0 = None"
  shows "sel r1 \<noteq> None \<longleftrightarrow> c"
  using assms by (cases c) auto

subsection \<open>Indirection directives\<close>

text \<open>
  C4, as stated: every \<open>file:\<close> or \<open>attr:\<close> value whose target cannot be resolved makes the
  extractor raise, and the directive text is never returned as the value. This fails for
  \<open>file:\<close>: with no file \<open>missing.txt\<close> in the world, \<open>file:missing.txt\<close> is returned as it
  is, because the read is guarded by \<open>os.path.exists\<close>.
\<close>

theorem parse_special_directives_missing_file_kept:
  "parse_special_directives no_modules empty_world ''file:missing.txt'' = Inr ''file:missing.txt''
   \<and> \<not> os_path_exists empty_world ''missing.txt''"
  by (simp add: parse_special_directives_def startswith_def split_def strip_def isspace_def
      os_path_exists_def path_exists_def resolve_def empty_world_def)

text \<open>
  C4, amended. An \<open>attr:\<close> value whose module cannot be imported or whose attribute is
  missing makes \<open>parse_special_directives\<close> raise. A \<open>file:\<close> value (with the prefix
  occurring once) whose path does not exist is returned unchanged.
\<close>

theorem parse_special_directives_unresolved:
  "(startswith s ''attr:'' \<and> \<not> attr_resolvable imp (strip (drop 5 s))
      \<longrightarrow> (\<exists>e. parse_special_directives imp w s = Inl e))
   \<and> (startswith s ''file:'' \<and> length (split s ''file:'') = 2
        \<and> \<not> os_path_exists w (strip (drop 5 s))
      \<longrightarrow> parse_special_directives imp w s = Inr s)"
proof (intro conjI impI)
  assume a: "startswith s ''attr:'' \<and> \<not> attr_resolvable imp (strip (drop 5 s))"
  then have nf: "\<not> startswith s ''file:''" by (auto simp: startswith_def)
  show "\<exists>e. parse_special_directives imp w s = Inl e"
  proof (cases "\<exists>p r. split s ''attr:'' = [p, r]")
    case True
    then obtain p r where pr: "split s ''attr:'' = [p, r]" by blast
    with a have r: "r = drop 5 s"
      using split_prefix_two[of s "''attr:''" p r] drop_prefix5 by auto
    show ?thesis
    proof (cases "CHR ''.'' \<in> set (strip r)")
      case False
      then show ?thesis using a nf pr
        by (cases "imp (strip r)") (simp_all add: parse_special_directives_def)
    next
      case True
      show ?thesis
      proof (cases "imp (fst (rpartition_dot (strip r)))")
        case (Inl e)
        then show ?thesis using a nf pr True by (simp add: parse_special_directives_def)
      next
        case (Inr m)
        then have "map_of m (snd (rpartition_dot (strip r))) = None"
          using a r True by (simp add: attr_resolvable_def)
        then show ?thesis using a nf pr True Inr
          by (simp add: parse_special_directives_def getattr_def)
      qed
    qed
  next
    case False
    then show ?thesis using a nf
      by (auto simp: parse_special_directives_def split: list.splits)
  qed
next
  assume f: "startswith s ''file:'' \<and> length (split s ''file:'') = 2
        \<and> \<not> os_path_exists w (strip (drop 5 s))"
  then obtain p r where pr: "split s ''file:'' = [p, r]" using length_two by blast
  with f have r: "r = drop 5 s"
    using split_prefix_two[of s "''file:''" p r] drop_prefix5 by auto
  show "parse_special_directives imp w s = Inr s"
    using f pr r by (simp add: parse_special_directives_def)
qed

theorem parse_special_directives_unresolved_witness:
  "startswith ''attr:pkg.version'' ''attr:''
   \<and> \<not> attr_resolvable no_modules (strip (drop 5 ''attr:pkg.version''))
   \<and> (\<exists>e. parse_special_directives no_modules empty_world ''attr:pkg.version'' = Inl e)
   \<and> startswith ''file: README.rst'' ''file:''
   \<and> length (split ''file: README.rst'' ''file:'') = 2
   \<and> \<not> os_path_exists empty_world (strip (drop 5 ''file: README.rst''))
   \<and> parse_special_directives no_modules empty_world ''file: README.rst'' = Inr ''file: README.rst''"
proof -
  have a: "startswith ''attr:pkg.version'' ''attr:''
      \<and> \<not> attr_resolvable no_modules (strip (drop 5 ''attr:pkg.version''))"
    by (simp add: startswith_def attr_resolvable_def no_modules_def)
  have f: "startswith ''file: README.rst'' ''file:''
      \<and> length (split ''file: README.rst'' ''file:'') = 2
      \<and> \<not> os_path_exists empty_world (strip (drop 5 ''file: README.rst''))"
    by (simp add: startswith_def split_def strip_def isspace_def os_path_exists_def
        path_exists_def resolve_def empty_world_def)
  show ?thesis
    using a f
      parse_special_directives_unresolved[of "''attr:pkg.version''" no_modules empty_world]
      parse_special_directives_unresolved[of "''file: README.rst''" no_modules empty_world]
    by blast
qed

subsection \<open>Keys of the config-file extractor's result\<close>

text \<open>
  C5, as stated: a section absent from the file is absent from the result. This fails for
  two keys: for a config file without any section the result still maps
  \<open>install_requires\<close> to the empty set and \<open>extras_require\<close> to the empty tuple.
\<close>

theorem parse_setup_cfg_empty_file_keys:
  "parse_setup_cfg cfg_env0 cfg_world [''pkg'', ''setup.cfg'']
     = Inr (Some (empty_results\<lparr>res_install_requires := Some {}, res_extras_require := Some []\<rparr>))"
  by (simp add: parse_setup_cfg_def cfg_env0_def cfg_world_def no_sections_def path_exists_def
      ConfigParser_read_def has_option_def parser_sections_def default_opts_def empty_results_def)

text \<open>
  C5, amended. In a result of \<open>parse_setup_cfg\<close> the keys \<open>name\<close>, \<open>version\<close>,
  \<open>python_requires\<close> and \<open>build_requires\<close> are present exactly when the file has the
  option; \<open>install_requires\<close> and \<open>extras_require\<close> are always present, and are empty when
  the file does not declare them.
\<close>

theorem parse_setup_cfg_keys:
  assumes "parse_setup_cfg env w p = Inr (Some r)"
    and "ce_read_config env w p = Inr f"
  shows "(res_name r \<noteq> None \<longleftrightarrow> has_option (ConfigParser_read f) ''metadata'' ''name'')
       \<and> (res_version r \<noteq> None \<longleftrightarrow> has_option (ConfigParser_read f) ''metadata'' ''version'')
       \<and> (res_python_requires r \<noteq> None
            \<longleftrightarrow> has_option (ConfigParser_read f) ''options'' ''python_requires'')
       \<and> (res_build_requires r \<noteq> None
            \<longleftrightarrow> has_option (ConfigParser_read f) ''options'' ''build_requires'')
       \<and> res_install_requires r \<noteq> None
       \<and> res_extras_require r \<noteq> None
       \<and> (\<not> has_option (ConfigParser_read f) ''options'' ''install_requires''
            \<longrightarrow> res_install_requires r = Some {})
       \<and> (''options.extras_require'' \<notin> set (parser_sections (ConfigParser_read f))
            \<longrightarrow> res_extras_require r = Some [])"
proof -
  let ?P = "ConfigParser_read f"
  have ex: "path_exists w p"
    using assms(1) by (auto simp: parse_setup_cfg_def split: if_splits)
  from assms ex obtain r1 r2 ir r4 r5 ex5 where
    s1: "(if has_option ?P ''metadata'' ''name''
          then ebind (parser_get ?P ''metadata'' ''name'') (\<lambda>v.
               ebind (parse_special_directives (ce_import_module env) w v) (\<lambda>v.
               Inr (empty_results\<lparr>res_name := Some v\<rparr>)))
          else Inr empty_results) = Inr r1"
    and s2: "(if has_option ?P ''metadata'' ''version''
          then ebind (parser_get ?P ''metadata'' ''version'') (\<lambda>v.
               ebind (parse_special_directives (ce_import_module env) w v) (\<lambda>v.
               Inr (r1\<lparr>res_version := Some v\<rparr>)))
          else Inr r1) = Inr r2"
    and s3: "(if has_option ?P ''options'' ''install_requires''
          then ebind (parser_get ?P ''options'' ''install_requires'') (\<lambda>v.
               ebind (map_err (from_string (ce_init_requirement env))
                        (filter (\<lambda>dep. dep \<noteq> []) (split v [CHR 0x0A]))) (\<lambda>reqs.
               Inr (set reqs)))
          else Inr {}) = Inr ir"
    and s4: "(if has_option ?P ''options'' ''python_requires''
          then ebind (parser_get ?P ''options'' ''python_requires'') (\<lambda>v.
               ebind (parse_special_directives (ce_import_module env) w v) (\<lambda>v.
               Inr (r2\<lparr>res_install_requires := Some ir, res_python_requires := Some v\<rparr>)))
          else Inr (r2\<lparr>res_install_requires := Some ir\<rparr>)) = Inr r4"
    and s5: "(if has_option ?P ''options'' ''build_requires''
          then ebind (parser_get ?P ''options'' ''build_requires'') (\<lambda>v.
               Inr (r4\<lparr>res_build_requires := Some v\<rparr>))
          else Inr r4) = Inr r5"
    and s6: "(if ''options.extras_require'' \<in> set (parser_sections ?P)
          then ebind (parser_options ?P ''options.extras_require'') (\<lambda>opts.
               extras_loop env ?P opts [])
          else Inr []) = Inr ex5"
    and r: "r = r5\<lparr>res_extras_require := Some ex5\<rparr>"
    unfolding parse_setup_cfg_def Let_def
    apply (simp only: if_True)
    apply (erule ebind_InrE)
    apply (simp only: sum.inject)
    apply (elim ebind_InrE)
    apply (simp only: sum.inject option.inject)
    done
  note f1 = stage_upd[OF s1] and f2 = stage_upd[OF s2] and f3 = stage_default[OF s3]
    and f4 = stage_upd[OF s4] and f5 = stage_upd1[OF s5] and f6 = stage_default[OF s6]
  have n: "res_name r \<noteq> None \<longleftrightarrow> has_option ?P ''metadata'' ''name''"
  proof -
    have "res_name r1 \<noteq> None \<longleftrightarrow> has_option ?P ''metadata'' ''name''"
      by (rule stage_sets[OF f1]) (simp_all add: empty_results_def)
    moreover have "res_name r2 = res_name r1" by (rule stage_keeps[OF f2]) simp
    moreover have "res_name r4 = res_name r2"
      using stage_keeps[OF f4, of res_name] by simp
    moreover have "res_name r5 = res_name r4" by (rule stage_keeps[OF f5]) simp
    ultimately show ?thesis using r by simp
  qed
  have v: "res_version r \<noteq> None \<longleftrightarrow> has_option ?P ''metadata'' ''version''"
  proof -
    have "res_version r1 = None"
      using stage_keeps[OF f1, of res_version] by (simp add: empty_results_def)
    then have "res_version r2 \<noteq> None \<longleftrightarrow> has_option ?P ''metadata'' ''version''"
      by (intro stage_sets[OF f2]) simp_all
    moreover have "res_version r4 = res_version r2"
      using stage_keeps[OF f4, of res_version] by simp
    moreover have "res_version r5 = res_version r4" by (rule stage_keeps[OF f5]) simp
    ultimately show ?thesis using r by simp
  qed
  have py: "res_python_requires r \<noteq> None \<longleftrightarrow> has_option ?P ''options'' ''python_requires''"
  proof -
    have "res_python_requires r1 = None"
      using stage_keeps[OF f1, of res_python_requires] by (simp add: empty_results_def)
    moreover have "res_python_requires r2 = res_python_requires r1"
      by (rule stage_keeps[OF f2]) simp
    ultimately have "res_python_requires (r2\<lparr>res_install_requires := Some ir\<rparr>) = None"
      by simp
    then have "res_python_requires r4 \<noteq> None \<longleftrightarrow> has_option ?P ''options'' ''python_requires''"
      by (intro stage_sets[OF f4]) simp_all
    moreover have "res_python_requires r5 = res_python_requires r4"
      by (rule stage_keeps[OF f5]) simp
    ultimately show ?thesis using r by simp
  qed
  have b: "res_build_requires r \<noteq> None \<longleftrightarrow> has_option ?P ''options'' ''build_requires''"
  proof -
    have "res_build_requires r1 = None"
      using stage_keeps[OF f1, of res_build_requires] by (simp add: empty_results_def)
    moreover have "res_build_requires r2 = res_build_requires r1"
      by (rule stage_keeps[OF f2]) simp
    moreover have "res_build_requires r4 = res_build_requires (r2\<lparr>res_install_requires := Some ir\<rparr>)"
      by (rule stage_keeps[OF f4]) simp
    ultimately have "res_build_requires r4 = None" by simp
    then have "res_build_requires r5 \<noteq> None \<longleftrightarrow> has_option ?P ''options'' ''build_requires''"
      by (intro stage_sets[OF f5]) simp_all
    then show ?thesis using r by simp
  qed
  have i: "res_install_requires r = Some ir"
  proof -
    have "res_install_requires r4 = res_install_requires (r2\<lparr>res_install_requires := Some ir\<rparr>)"
      by (rule stage_keeps[OF f4]) simp
    moreover have "res_install_requires r5 = res_install_requires r4"
      by (rule stage_keeps[OF f5]) simp
    ultimately show ?thesis using r by simp
  qed
  have x: "res_extras_require r = Some ex5"
    using r by simp
  show ?thesis using n v py b i x f3 f6 by simp
qed

theorem parse_setup_cfg_keys_witness:
  "parse_setup_cfg cfg_env1 cfg_world [''pkg'', ''setup.cfg''] = Inr (Some named_results)
   \<and> ce_read_config cfg_env1 cfg_world [''pkg'', ''setup.cfg''] = Inr named_cfg
   \<and> has_option (ConfigParser_read named_cfg) ''metadata'' ''name''
   \<and> res_name named_results \<noteq> None
   \<and> \<not> has_option (ConfigParser_read named_cfg) ''metadata'' ''version''
   \<and> res_version named_results = None
   \<and> res_install_requires named_results \<noteq> None
   \<and> ''options.extras_require'' \<notin> set (parser_sections (ConfigParser_read named_cfg))
   \<and> res_extras_require named_results = Some []"
proof -
  have h2: "ce_read_config cfg_env1 cfg_world [''pkg'', ''setup.cfg''] = Inr named_cfg"
    by (simp add: cfg_env1_def named_sections_def)
  have h1: "parse_setup_cfg cfg_env1 cfg_world [''pkg'', ''setup.cfg''] = Inr (Some named_results)"
    by (simp add: parse_setup_cfg_def cfg_env1_def cfg_world_def named_sections_def
        named_cfg_def path_exists_def ConfigParser_read_def has_option_def parser_get_def
        parser_sections_def default_opts_def empty_results_def lower_def lower_char_def
        parse_special_directives_def startswith_def split_def from_string_def strip_def
        isspace_def plain_requirement_def from_req_def named_results_def Let_def)
  have o: "has_option (ConfigParser_read named_cfg) ''metadata'' ''name''"
    "\<not> has_option (ConfigParser_read named_cfg) ''metadata'' ''version''"
    "''options.extras_require'' \<notin> set (parser_sections (ConfigParser_read named_cfg))"
    by (simp_all add: named_cfg_def ConfigParser_read_def has_option_def parser_sections_def
        default_opts_def lower_def lower_char_def)
  show ?thesis
    using h1 h2 o parse_setup_cfg_keys[OF h1 h2] by blast
qed

subsection \<open>Extras markers and version markers\<close>

text \<open>
  The wheel extractor routes each requirement as C6 says: one whose marker names an extra
  goes to that extra, stripped; any other stays in \<open>requires\<close> as parsed.
\<close>

lemma wheel_extra_marker:
  assumes "init_requirement req = Inr r" and "req_marker r = Some m"
    and "get_extra_name_from_marker m = Inr (Some x)"
  shows "wheel_requires_loop init_requirement strip_extras (req # reqs) requires extras
       = wheel_requires_loop init_requirement strip_extras reqs requires
           (dict_append extras x (strip_extras r))"
  using assms by simp

lemma wheel_other_marker:
  assumes "init_requirement req = Inr r"
    and "req_marker r = None
       \<or> (\<exists>m. req_marker r = Some m \<and> get_extra_name_from_marker m = Inr None)"
  shows "wheel_requires_loop init_requirement strip_extras (req # reqs) requires extras
       = wheel_requires_loop init_requirement strip_extras reqs (requires @ [r]) extras"
  using assms by auto

text \<open>
  C6 on the installed-metadata path. For the distribution \<open>py2_dist\<close> the loop over the
  dependency map builds \<open>deps\<close> with the requirement \<open>foo\<close> and its version marker
  attached, but \<open>get_metadata_from_dist\<close> returns the list \<open>requires\<close> it got from
  \<open>dist.requires()\<close>: the requirement is in no list of the result.
\<close>

theorem get_metadata_from_dist_drops_version_marked:
  "dep_map_loop plain_requirement [(Some py2_key, [foo_req])] [] [] = Inr ([foo_py2_req], [])
   \<and> get_metadata_from_dist plain_requirement py2_dist
       = Inr \<lparr>md_name = Some ''pkg'', md_version = Some ''1.0'', md_requires = [],
              md_extras = []\<rparr>"
  by (simp add: get_metadata_from_dist_def py2_dist_def py2_key_def foo_req_def foo_py2_req_def
      startswith_def replace_colon_def plain_requirement_def lower_def lower_char_def Let_def)

subsection \<open>Preference for the dist-info directory\<close>

text \<open>
  When both searches find a directory and no metadata type is given, \<open>matched_dir\<close> is the
  dist-info directory. The distribution that is parsed, however, is the first one
  \<open>pkg_resources\<close> reports for the parent of that directory, whichever metadata directory
  of the parent it was read from.
\<close>

lemma get_metadata_parses_first_of_parent:
  assumes "find_egginfo (pe_get_name_variants env) w path pkg_name = Inr (Some e # es)"
    and "find_distinfo (pe_get_name_variants env) w path pkg_name = Inr (Some d # ds)"
    and "pe_find_distributions env w (butlast (de_path d)) = dist # rest"
  shows "matched_dir True True (Some d) (Some e) = Some d"
    and "get_metadata env w path pkg_name None
           = ebind (get_metadata_from_dist (pe_Requirement_parse env) dist) (\<lambda>m. Inr (Some m))"
  using assms by (simp_all add: get_metadata_def matched_dir_def Let_def List.map_filter_simps)

text \<open>
  C7 fails. The tree \<open>site_world\<close> has the directories \<open>pkg.egg-info\<close> and
  \<open>pkg-1.0.dist-info\<close>. Asked for the package \<open>pkg\<close> with no metadata type, the search for
  egg-info finds the first, the search for dist-info finds nothing (the name before the
  suffix is \<open>pkg-1.0\<close>, which is no spelling of \<open>pkg\<close>), so the egg-info directory is the
  one matched and the result is the metadata of version 0.9 read from it, not that of
  version 1.0 in the dist-info directory.
\<close>

theorem get_metadata_misses_versioned_dist_info:
  "scandir site_world [''site''] = [egg_entry, dist_entry]
   \<and> find_egginfo (pe_get_name_variants site_env) site_world [''site''] (Some ''pkg'')
       = Inr [Some egg_entry]
   \<and> find_distinfo (pe_get_name_variants site_env) site_world [''site''] (Some ''pkg'')
       = Inr [None]
   \<and> matched_dir True True None (Some egg_entry) = Some egg_entry
   \<and> get_metadata site_env site_world [''site''] (Some ''pkg'') None
       = Inr (Some \<lparr>md_name = Some ''pkg'', md_version = Some ''0.9'', md_requires = [],
                    md_extras = []\<rparr>)
   \<and> get_metadata_from_dist (pe_Requirement_parse site_env) dist_info_dist
       = Inr \<lparr>md_name = Some ''pkg'', md_version = Some ''1.0'', md_requires = [foo_req],
              md_extras = []\<rparr>"
  by code_simp

subsection \<open>Merging a record twice\<close>

lemma ensure_reqs_objects: "ensure_reqs parse (map RObj xs) = Inr xs"
  by (induction xs) auto

lemma populate_extras_loop_result:
  "\<exists>self'. populate_extras_loop parse metadata xs self w = (Inr (), self', w)
     \<and> si_requirements self' = si_requirements self \<union> extras_contribution metadata xs
     \<and> si_ireq self' = si_ireq self"
proof (induction xs arbitrary: self)
  case Nil
  then show ?case by (simp add: extras_contribution_def)
next
  case (Cons extra rest)
  let ?rs = "case map_of (md_extras metadata) extra of None \<Rightarrow> [] | Some rs \<Rightarrow> rs"
  let ?self1 = "self\<lparr>si_extras_requirements :=
                    si_extras_requirements self @ [(extra, map (\<lambda>req. from_req (RObj req)) ?rs)],
                  si_requirements :=
                    si_requirements self \<union> set (map BR (map (\<lambda>req. from_req (RObj req)) ?rs))\<rparr>"
  have contrib: "extras_contribution metadata (extra # rest)
      = set (map (\<lambda>req. BR (from_req (RObj req))) ?rs) \<union> extras_contribution metadata rest"
    by (simp add: extras_contribution_def)
  show ?case
  proof (cases "?rs = []")
    case True
    then have "populate_extras_loop parse metadata (extra # rest) self w
        = populate_extras_loop parse metadata rest self w"
      by simp
    moreover from Cons.IH[of self] obtain self' where
      "populate_extras_loop parse metadata rest self w = (Inr (), self', w)"
      "si_requirements self' = si_requirements self \<union> extras_contribution metadata rest"
      "si_ireq self' = si_ireq self"
      by blast
    ultimately show ?thesis using True contrib by simp
  next
    case False
    then have step: "populate_extras_loop parse metadata (extra # rest) self w
        = populate_extras_loop parse metadata rest ?self1 w"
      by (simp add: ensure_reqs_objects Let_def image_image)
    from Cons.IH[of ?self1] obtain self' where
      "populate_extras_loop parse metadata rest ?self1 w = (Inr (), self', w)"
      "si_requirements self' = si_requirements ?self1 \<union> extras_contribution metadata rest"
      "si_ireq self' = si_ireq ?self1"
      by blast
    then show ?thesis using step contrib by (auto simp: comp_def)
  qed
qed

lemma populate_metadata_result:
  "\<exists>self'. populate_metadata env metadata self w = (Inr (), self', w)
     \<and> si_requirements self'
         = si_requirements self
           \<union> set (map (\<lambda>req. BR (from_req (RObj req))) (md_requires metadata))
           \<union> extras_contribution metadata (ireq_extras_or_empty self)
     \<and> si_ireq self' = si_ireq self"
proof -
  let ?s1 = "self\<lparr>si_metadata := Some (metadata_tuple metadata)\<rparr>"
  let ?s2 = "if si_name ?s1 = None then ?s1\<lparr>si_name := md_name metadata\<rparr> else ?s1"
  let ?s3 = "if falsy_str (si_version ?s2) then ?s2\<lparr>si_version := md_version metadata\<rparr> else ?s2"
  let ?s4 = "?s3\<lparr>si_requirements := si_requirements ?s3
               \<union> set (map (\<lambda>req. BR (from_req (RObj req))) (md_requires metadata))\<rparr>"
  have e: "populate_metadata env metadata self w
      = populate_extras_loop (pe_Requirement_parse (e_probe env)) metadata
          (ireq_extras_or_empty ?s4) ?s4 w"
    by (simp add: populate_metadata_def Let_def)
  have i: "si_ireq ?s4 = si_ireq self" by simp
  have r: "si_requirements ?s4 = si_requirements self
      \<union> set (map (\<lambda>req. BR (from_req (RObj req))) (md_requires metadata))"
    by simp
  have x: "ireq_extras_or_empty ?s4 = ireq_extras_or_empty self"
    using i by (simp add: ireq_extras_or_empty_def)
  from populate_extras_loop_result[of "pe_Requirement_parse (e_probe env)" metadata
      "ireq_extras_or_empty ?s4" ?s4 w]
  obtain self' where
    "populate_extras_loop (pe_Requirement_parse (e_probe env)) metadata
       (ireq_extras_or_empty ?s4) ?s4 w = (Inr (), self', w)"
    "si_requirements self' = si_requirements ?s4
       \<union> extras_contribution metadata (ireq_extras_or_empty ?s4)"
    "si_ireq self' = si_ireq ?s4"
    by blast
  then show ?thesis using e i r x by simp
qed

text \<open>
  C8. \<open>populate_metadata\<close> always returns, and merging the same record a second time
  leaves the requirement set as the first merge made it.
\<close>

theorem populate_metadata_requirements_idempotent:
  assumes "populate_metadata env metadata self w = (r1, self1, w1)"
    and "populate_metadata env metadata self1 w1 = (r2, self2, w2)"
  shows "r1 = Inr () \<and> r2 = Inr () \<and> si_requirements self2 = si_requirements self1"
proof -
  from populate_metadata_result[of env metadata self w] assms(1)
  have a: "r1 = Inr ()" "si_requirements self1 = si_requirements self
           \<union> set (map (\<lambda>req. BR (from_req (RObj req))) (md_requires metadata))
           \<union> extras_contribution metadata (ireq_extras_or_empty self)"
    "si_ireq self1 = si_ireq self"
    by auto
  from populate_metadata_result[of env metadata self1 w1] assms(2)
  have b: "r2 = Inr ()" "si_requirements self2 = si_requirements self1
           \<union> set (map (\<lambda>req. BR (from_req (RObj req))) (md_requires metadata))
           \<union> extras_contribution metadata (ireq_extras_or_empty self1)"
    by auto
  have "ireq_extras_or_empty self1 = ireq_extras_or_empty self"
    using a(3) by (simp add: ireq_extras_or_empty_def)
  then show ?thesis using a b by auto
qed

theorem populate_metadata_requirements_idempotent_witness:
  "fst (populate_metadata quiet_env docs_metadata docs_info bare_world) = Inr ()
   \<and> si_requirements (fst (snd (populate_metadata quiet_env docs_metadata docs_info bare_world)))
       = {BR (from_req (RObj foo_req)), BR (from_req (RObj sphinx_req))}
   \<and> si_requirements
        (fst (snd (populate_metadata quiet_env docs_metadata
           (fst (snd (populate_metadata quiet_env docs_metadata docs_info bare_world)))
           (snd (snd (populate_metadata quiet_env docs_metadata docs_info bare_world))))))
       = si_requirements
           (fst (snd (populate_metadata quiet_env docs_metadata docs_info bare_world)))"
proof -
  let ?once = "populate_metadata quiet_env docs_metadata docs_info bare_world"
  let ?twice = "populate_metadata quiet_env docs_metadata (fst (snd ?once)) (snd (snd ?once))"
  have h1: "?once = (fst ?once, fst (snd ?once), snd (snd ?once))" by simp
  have h2: "?twice = (fst ?twice, fst (snd ?twice), snd (snd ?twice))" by simp
  have c: "si_requirements (fst (snd ?once))
      = {BR (from_req (RObj foo_req)), BR (from_req (RObj sphinx_req))}"
    by code_simp
  show ?thesis
    using populate_metadata_requirements_idempotent[OF h1 h2] c by simp
qed

subsection \<open>Fields that every stage carries over\<close>

lemma kept_fields_refl: "kept_fields s s"
  by (auto simp: kept_fields_def)

lemma kept_fields_trans: "kept_fields a b \<Longrightarrow> kept_fields b c \<Longrightarrow> kept_fields a c"
  by (auto simp: kept_fields_def)

lemma kept_fields_upd:
  "kept_fields a x \<Longrightarrow> kept_fields a (x\<lparr>si_metadata := m\<rparr>)"
  "kept_fields a x \<Longrightarrow> kept_fields a (x\<lparr>si_requirements := r\<rparr>)"
  "kept_fields a x \<Longrightarrow> kept_fields a (x\<lparr>si_extras_requirements := e\<rparr>)"
  "kept_fields a x \<Longrightarrow> kept_fields a (x\<lparr>si_build_requires := b\<rparr>)"
  "kept_fields a x \<Longrightarrow> kept_fields a (x\<lparr>si_build_backend := k\<rparr>)"
  "kept_fields a x \<Longrightarrow> kept_fields a (x\<lparr>si_setup_requires := q\<rparr>)"
  "kept_fields a x \<Longrightarrow> kept_fields a (x\<lparr>si_python_requires := p\<rparr>)"
  "kept_fields a x \<Longrightarrow> kept_fields a (x\<lparr>si_name := Some n\<rparr>)"
  "kept_fields a x \<Longrightarrow> si_name x = None \<Longrightarrow> kept_fields a (x\<lparr>si_name := v\<rparr>)"
  "kept_fields a x \<Longrightarrow> si_version x = None \<Longrightarrow> kept_fields a (x\<lparr>si_version := v\<rparr>)"
  "kept_fields a x \<Longrightarrow> falsy_str (si_version x) \<Longrightarrow> kept_fields a (x\<lparr>si_version := v\<rparr>)"
  by (auto simp: kept_fields_def falsy_str_def)

lemma keeps_leaf: "R self s \<Longrightarrow> keeps R self (r, s, w)"
  by (simp add: keeps_def)

lemma keeps_prod: "(\<And>a b. keeps R self (f a b)) \<Longrightarrow> keeps R self (case p of (a, b) \<Rightarrow> f a b)"
  by (cases p) simp

lemma keeps_sum:
  "(\<And>a. keeps R self (f a)) \<Longrightarrow> (\<And>b. keeps R self (g b))
     \<Longrightarrow> keeps R self (case s of Inl a \<Rightarrow> f a | Inr b \<Rightarrow> g b)"
  by (cases s) simp_all

lemma keeps_option:
  "keeps R self a \<Longrightarrow> (\<And>x. keeps R self (g x))
     \<Longrightarrow> keeps R self (case v of None \<Rightarrow> a | Some x \<Rightarrow> g x)"
  by (cases v) simp_all

lemma keeps_if: "keeps R self a \<Longrightarrow> keeps R self b \<Longrightarrow> keeps R self (if c then a else b)"
  by simp

lemma keeps_Let_state:
  "R self v \<Longrightarrow> (\<And>x. R self x \<Longrightarrow> keeps R self (f x))
     \<Longrightarrow> keeps R self (Let v f)"
  by simp

lemma keeps_Let: "(\<And>x. keeps R self (f x)) \<Longrightarrow> keeps R self (Let v f)"
  by simp

lemma keeps_obind:
  "keeps R self m \<Longrightarrow> (\<And>x s w. R self s \<Longrightarrow> keeps R self (f x s w))
     \<Longrightarrow> keeps R self (obind m f)"
proof -
  assume a: "keeps R self m" and b: "\<And>x s w. R self s \<Longrightarrow> keeps R self (f x s w)"
  obtain r s w where m: "m = (r, s, w)" by (cases m) auto
  show ?thesis
  proof (cases r)
    case (Inl e)
    then show ?thesis using m a by (simp add: keeps_def)
  next
    case (Inr x)
    then show ?thesis using m a b[where x=x and s=s and w=w] by (simp add: keeps_def)
  qed
qed

lemma keeps_cd:
  "R self0 self
     \<Longrightarrow> (\<And>s w. R self0 s \<Longrightarrow> keeps R self0 (body s w))
     \<Longrightarrow> keeps R self0 (cd p self w body)"
proof -
  assume a: "R self0 self"
    and b: "\<And>s w. R self0 s \<Longrightarrow> keeps R self0 (body s w)"
  show ?thesis
  proof (cases p)
    case None
    then show ?thesis using a by (simp add: cd_def keeps_def)
  next
    case (Some d)
    obtain r s' w' where o: "body self (w\<lparr>w_cwd := d\<rparr>) = (r, s', w')"
      by (cases "body self (w\<lparr>w_cwd := d\<rparr>)") auto
    then have "R self0 s'" using b[OF a, of "w\<lparr>w_cwd := d\<rparr>"] by (simp add: keeps_def)
    then show ?thesis using Some o a by (simp add: cd_def keeps_def)
  qed
qed

lemmas keeps_rules =
  keeps_prod keeps_sum keeps_option keeps_if keeps_Let_state keeps_Let keeps_obind

lemma populate_extras_loop_keeps:
  "kept_fields self0 self \<Longrightarrow> keeps kept_fields self0 (populate_extras_loop parse metadata xs self w)"
proof (induction xs arbitrary: self)
  case Nil
  then show ?case by (simp add: keeps_def)
next
  case (Cons extra rest)
  show ?case
    unfolding populate_extras_loop.simps
    apply (intro keeps_rules Cons.IH keeps_leaf)
    using Cons.prems apply (simp_all add: kept_fields_upd)
    done
qed

lemma populate_metadata_keeps:
  "kept_fields self0 self \<Longrightarrow> keeps kept_fields self0 (populate_metadata env metadata self w)"
  unfolding populate_metadata_def
  apply (intro keeps_rules populate_extras_loop_keeps keeps_leaf)
  apply (simp_all add: kept_fields_upd)
  done

lemma get_egg_metadata_keeps:
  "kept_fields self0 self
     \<Longrightarrow> keeps kept_fields self0 (get_egg_metadata env metadata_dir metadata_type self w)"
  unfolding get_egg_metadata_def
  apply (intro keeps_rules populate_metadata_keeps keeps_leaf)
  apply (simp_all add: kept_fields_upd)
  done

lemma keeps_catch:
  "keeps R self m \<Longrightarrow> (\<And>e s w. R self s \<Longrightarrow> keeps R self (h e s w))
     \<Longrightarrow> keeps R self (catch m h)"
proof -
  assume a: "keeps R self m" and b: "\<And>e s w. R self s \<Longrightarrow> keeps R self (h e s w)"
  obtain r s w where m: "m = (r, s, w)" by (cases m) auto
  show ?thesis
  proof (cases r)
    case (Inl e)
    then show ?thesis using m a b[where e=e and s=s and w=w] by (simp add: keeps_def)
  next
    case (Inr x)
    then show ?thesis using m a by (simp add: keeps_def)
  qed
qed

lemma keeps_sum_state:
  "(\<And>s. scrut = Inr s \<Longrightarrow> R self0 s)
     \<Longrightarrow> (\<And>a. keeps R self0 (f a))
     \<Longrightarrow> (\<And>s. R self0 s \<Longrightarrow> keeps R self0 (g s))
     \<Longrightarrow> keeps R self0 (case scrut of Inl a \<Rightarrow> f a | Inr s \<Rightarrow> g s)"
  by (cases scrut) simp_all

lemma get_metadata_from_wheel_keeps:
  "kept_fields self0 self
     \<Longrightarrow> keeps kept_fields self0 (SetupInfo_get_metadata_from_wheel env p self w)"
  unfolding SetupInfo_get_metadata_from_wheel_def
  apply (intro keeps_rules populate_metadata_keeps keeps_leaf)
  apply (simp_all add: kept_fields_upd)
  done

lemma cfg_extras_loop_kept:
  "kept_fields self0 self \<Longrightarrow> kept_fields self0 (cfg_extras_loop env xs self)"
proof (induction xs arbitrary: self)
  case Nil
  then show ?case by simp
next
  case (Cons extra rest)
  show ?case
  proof (cases "map_of (SetupInfo_extras env self) extra")
    case None
    then show ?thesis using Cons by simp
  next
    case (Some reqs)
    let ?s = "self\<lparr>si_extras_requirements :=
                     si_extras_requirements self @ [(extra, map from_req reqs)],
                  si_requirements := si_requirements self \<union> set (map BR (map from_req reqs))\<rparr>"
    have "kept_fields self0 ?s" using Cons.prems by (simp add: kept_fields_upd)
    then show ?thesis using Some Cons.IH[of ?s] by (simp add: Let_def image_image)
  qed
qed

lemma parse_setup_cfg_keeps:
  "kept_fields self0 self \<Longrightarrow> keeps kept_fields self0 (SetupInfo_parse_setup_cfg env self w)"
  unfolding SetupInfo_parse_setup_cfg_def
  apply (intro keeps_rules keeps_leaf cfg_extras_loop_kept)
  apply (simp_all add: kept_fields_upd)
  done

lemma run_pyproject_keeps:
  "kept_fields self0 self \<Longrightarrow> keeps kept_fields self0 (run_pyproject env self w)"
  unfolding run_pyproject_def
  apply (intro keeps_rules keeps_leaf)
  apply (simp_all add: kept_fields_upd)
  done

lemma dist_extras_loop_keeps:
  "kept_fields self0 self \<Longrightarrow> keeps kept_fields self0 (dist_extras_loop keys self w)"
proof (induction keys arbitrary: self)
  case Nil
  then show ?case by (simp add: keeps_def)
next
  case (Cons key rest)
  show ?case
  proof (cases "\<exists>a b. key = [a, b]")
    case True
    then obtain a b where k: "key = [a, b]" by blast
    let ?s = "self\<lparr>si_extras_requirements :=
                   si_extras_requirements self @ [([a], [from_req (RStr [b])])]\<rparr>"
    have "kept_fields self0 ?s" using Cons.prems by (simp add: kept_fields_upd)
    then have "keeps kept_fields self0 (dist_extras_loop rest ?s w)" by (rule Cons.IH)
    then show ?thesis using k by simp
  next
    case False
    then have "dist_extras_loop (key # rest) self w = (Inl ValueError, self, w)"
      by (auto split: list.splits)
    then show ?thesis using Cons.prems by (simp add: keeps_def)
  qed
qed

lemma keeps_outcome:
  "keeps R self0 m \<Longrightarrow> (\<And>e s w. R self0 s \<Longrightarrow> keeps R self0 (f e s w))
     \<Longrightarrow> (\<And>x s w. R self0 s \<Longrightarrow> keeps R self0 (g x s w))
     \<Longrightarrow> keeps R self0 (case m of (Inl e, s, w) \<Rightarrow> f e s w | (Inr x, s, w) \<Rightarrow> g x s w)"
proof -
  assume a: "keeps R self0 m"
    and b: "\<And>e s w. R self0 s \<Longrightarrow> keeps R self0 (f e s w)"
    and c: "\<And>x s w. R self0 s \<Longrightarrow> keeps R self0 (g x s w)"
  obtain r s w where m: "m = (r, s, w)" by (cases m) auto
  then have "R self0 s" using a by (simp add: keeps_def)
  then show ?thesis using m b c by (cases r) simp_all
qed

lemma harvest_distribution_keeps:
  "kept_fields self0 self \<Longrightarrow> keeps kept_fields self0 (harvest_distribution env dist self w)"
  unfolding harvest_distribution_def
  apply (intro keeps_sum_state keeps_outcome keeps_rules keeps_leaf dist_extras_loop_keeps)
  apply (auto simp: kept_fields_upd ebind_Inr Let_def split: if_splits)
  done

lemma run_setup_keeps:
  "kept_fields self0 self \<Longrightarrow> keeps kept_fields self0 (run_setup env self w)"
  unfolding run_setup_def
  apply (intro keeps_cd keeps_rules keeps_leaf get_egg_metadata_keeps harvest_distribution_keeps)
  apply (simp_all add: kept_fields_upd)
  done

lemma build_keeps:
  "kept_fields self0 self \<Longrightarrow> keeps kept_fields self0 (build env self w)"
  unfolding build_def
  apply (intro keeps_catch keeps_rules keeps_leaf get_egg_metadata_keeps run_setup_keeps
      get_metadata_from_wheel_keeps)
  apply (simp_all add: kept_fields_upd)
  done

lemma get_info_keeps:
  "kept_fields self0 self \<Longrightarrow> keeps kept_fields self0 (get_info env self w)"
  unfolding get_info_def
  apply (intro keeps_cd keeps_catch keeps_rules keeps_leaf get_egg_metadata_keeps
      run_setup_keeps build_keeps run_pyproject_keeps parse_setup_cfg_keeps)
  apply (simp_all add: kept_fields_upd)
  done


lemma name_kept_refl: "name_kept s s"
  by (simp add: name_kept_def)

lemma name_kept_upd:
  "name_kept a x \<Longrightarrow> name_kept a (x\<lparr>si_metadata := m\<rparr>)"
  "name_kept a x \<Longrightarrow> name_kept a (x\<lparr>si_requirements := r\<rparr>)"
  "name_kept a x \<Longrightarrow> name_kept a (x\<lparr>si_extras_requirements := e\<rparr>)"
  "name_kept a x \<Longrightarrow> name_kept a (x\<lparr>si_build_requires := b\<rparr>)"
  "name_kept a x \<Longrightarrow> name_kept a (x\<lparr>si_python_requires := p\<rparr>)"
  "name_kept a x \<Longrightarrow> name_kept a (x\<lparr>si_version := v\<rparr>)"
  "name_kept a x \<Longrightarrow> si_name x = None \<Longrightarrow> name_kept a (x\<lparr>si_name := n\<rparr>)"
  by (auto simp: name_kept_def)

lemma populate_extras_loop_keeps_name:
  "name_kept self0 self \<Longrightarrow> keeps name_kept self0 (populate_extras_loop parse metadata xs self w)"
proof (induction xs arbitrary: self)
  case Nil
  then show ?case by (simp add: keeps_def)
next
  case (Cons extra rest)
  show ?case
    unfolding populate_extras_loop.simps
    apply (intro keeps_rules Cons.IH keeps_leaf)
    using Cons.prems apply (simp_all add: name_kept_upd)
    done
qed

lemma populate_metadata_keeps_name:
  "name_kept self0 self \<Longrightarrow> keeps name_kept self0 (populate_metadata env metadata self w)"
  unfolding populate_metadata_def
  apply (intro keeps_rules populate_extras_loop_keeps_name keeps_leaf)
  apply (simp_all add: name_kept_upd)
  done

lemma get_egg_metadata_keeps_name:
  "name_kept self0 self
     \<Longrightarrow> keeps name_kept self0 (get_egg_metadata env metadata_dir metadata_type self w)"
  unfolding get_egg_metadata_def
  apply (intro keeps_rules populate_metadata_keeps_name keeps_leaf)
  apply (simp_all add: name_kept_upd)
  done

lemma get_metadata_from_wheel_keeps_name:
  "name_kept self0 self
     \<Longrightarrow> keeps name_kept self0 (SetupInfo_get_metadata_from_wheel env p self w)"
  unfolding SetupInfo_get_metadata_from_wheel_def
  apply (intro keeps_rules populate_metadata_keeps_name keeps_leaf)
  apply (simp_all add: name_kept_upd)
  done

lemma cfg_extras_loop_keeps_name:
  "name_kept self0 self \<Longrightarrow> name_kept self0 (cfg_extras_loop env xs self)"
proof (induction xs arbitrary: self)
  case Nil
  then show ?case by simp
next
  case (Cons extra rest)
  show ?case
  proof (cases "map_of (SetupInfo_extras env self) extra")
    case None
    then show ?thesis using Cons by simp
  next
    case (Some reqs)
    let ?s = "self\<lparr>si_extras_requirements :=
                     si_extras_requirements self @ [(extra, map from_req reqs)],
                  si_requirements := si_requirements self \<union> set (map BR (map from_req reqs))\<rparr>"
    have "name_kept self0 ?s" using Cons.prems by (simp add: name_kept_upd)
    then show ?thesis using Some Cons.IH[of ?s] by (simp add: Let_def image_image)
  qed
qed

lemma parse_setup_cfg_keeps_name:
  "name_kept self0 self \<Longrightarrow> keeps name_kept self0 (SetupInfo_parse_setup_cfg env self w)"
  unfolding SetupInfo_parse_setup_cfg_def
  apply (intro keeps_rules keeps_leaf cfg_extras_loop_keeps_name)
  apply (simp_all add: name_kept_upd)
  done

lemma obind_InrE:
  assumes "obind m f = (Inr y, s', w')"
  obtains x s w where "m = (Inr x, s, w)" and "f x s w = (Inr y, s', w')"
proof -
  obtain r s w where m: "m = (r, s, w)" by (cases m) auto
  with assms show ?thesis by (cases r) (auto intro: that)
qed

lemma get_info_returns_as_dict:
  assumes "get_info env self w = (Inr d, self', w')"
  shows "as_dict env self' = Inr d"
proof -
  from assms obtain s3 w3 where
    "(case as_dict env s3 of Inl e \<Rightarrow> (Inl e, s3, w3) | Inr d \<Rightarrow> (Inr d, s3, w3))
       = (Inr d, self', w')"
    unfolding get_info_def by (elim obind_InrE)
  then show ?thesis by (cases "as_dict env s3") auto
qed

lemma map_of_filter_values:
  "distinct (map fst xs)
     \<Longrightarrow> map_of (filter (\<lambda>(k, v). P v) xs) k
         = (case map_of xs k of None \<Rightarrow> None | Some v \<Rightarrow> if P v then Some v else None)"
proof (induction xs)
  case Nil
  then show ?case by simp
next
  case (Cons x xs)
  obtain k' v' where x: "x = (k', v')" by (cases x)
  have "k = k' \<Longrightarrow> map_of xs k = None"
    using Cons.prems x by (auto simp: map_of_eq_None_iff)
  then show ?case using Cons x by (auto split: option.splits)
qed


lemma as_dict_lookup:
  assumes "as_dict env self = Inr d"
  shows "\<exists>rs. SetupInfo_requires self = Inr rs
           \<and> (\<forall>k. map_of d k
                  = (case map_of (prop_dict env self rs) k of
                       None \<Rightarrow> None | Some v \<Rightarrow> if truthy v then Some v else None))"
proof -
  from assms obtain rs where rs: "SetupInfo_requires self = Inr rs"
    and d: "d = filter (\<lambda>(k, v). truthy v) (prop_dict env self rs)"
    by (auto simp: as_dict_def ebind_Inr)
  have "distinct (map fst (prop_dict env self rs))" by (simp add: prop_dict_def)
  then have "\<And>k. map_of d k
      = (case map_of (prop_dict env self rs) k of
           None \<Rightarrow> None | Some v \<Rightarrow> if truthy v then Some v else None)"
    unfolding d by (rule map_of_filter_values)
  with rs show ?thesis by blast
qed

lemma opt_val_VPath:
  "(if truthy (opt_val VPath p) then Some (opt_val VPath p) else None) = map_option VPath p"
  by (cases p) (simp_all add: opt_val_def)

subsection \<open>The identity fields across stages\<close>

text \<open>
  The version is first writer wins through a whole resolution pass: once it is known
  (a non-empty string) no stage of \<open>get_info\<close> changes it.
\<close>

lemma get_info_keeps_version:
  assumes "get_info env self w = (r, self', w')" and "\<not> falsy_str (si_version self)"
  shows "si_version self' = si_version self"
  using get_info_keeps[OF kept_fields_refl, where env=env and self=self and w=w] assms
  by (simp add: keeps_def kept_fields_def)

text \<open>
  Config parsing and the population from wheel or installed metadata are first writer
  wins for the name as well: a name that is set comes out unchanged.
\<close>

lemma config_and_metadata_stages_keep_name:
  assumes "si_name self = Some n"
  shows "si_name (fst (snd (SetupInfo_parse_setup_cfg env self w))) = Some n"
    and "si_name (fst (snd (populate_metadata env metadata self w))) = Some n"
    and "si_name (fst (snd (get_egg_metadata env metadata_dir metadata_type self w))) = Some n"
    and "si_name (fst (snd (SetupInfo_get_metadata_from_wheel env p self w))) = Some n"
  using assms
    parse_setup_cfg_keeps_name[OF name_kept_refl, where env=env and self=self and w=w]
    populate_metadata_keeps_name[OF name_kept_refl, where env=env and self=self and w=w
      and metadata=metadata]
    get_egg_metadata_keeps_name[OF name_kept_refl, where env=env and self=self and w=w
      and metadata_dir=metadata_dir and metadata_type=metadata_type]
    get_metadata_from_wheel_keeps_name[OF name_kept_refl, where env=env and self=self and w=w
      and p=p]
  by (simp_all add: keeps_def name_kept_def)

text \<open>
  C1 fails for the name. The aggregate \<open>named_info\<close> has the name \<open>pkgA\<close>; the legacy
  script registers a distribution named \<open>pkgB\<close>; \<open>run_setup\<close> returns normally with the
  name \<open>pkgB\<close>. The same happens inside one resolution pass: the config file gives the
  name \<open>pkg\<close>, the builds fail, and the pass ends with the name \<open>pkgB\<close>.
\<close>

theorem run_setup_overwrites_name:
  "si_name named_info = Some ''pkgA''
   \<and> fst (run_setup legacy_env named_info legacy_world) = Inr ()
   \<and> si_name (fst (snd (run_setup legacy_env named_info legacy_world))) = Some ''pkgB''
   \<and> si_name (fst (snd (SetupInfo_parse_setup_cfg legacy_env fresh_info legacy_world)))
       = Some ''pkg''
   \<and> si_name (fst (snd (get_info legacy_env fresh_info legacy_world))) = Some ''pkgB''"
  by code_simp

subsection \<open>reload\<close>






subsection \<open>The output mapping\<close>

text \<open>
  C3, as stated: on a directory without any packaging declaration \<open>get_info\<close> does not
  raise and the mapping has the key \<open>base_dir\<close> only. For the aggregate \<open>create\<close> builds
  for such a directory the mapping has six keys; and when \<open>create\<close> was given no
  \<open>kwargs\<close>, \<open>get_info\<close> raises \<open>TypeError\<close>.
\<close>

theorem get_info_bare_directory:
  "\<not> path_exists bare_world [''src'', ''setup.py'']
   \<and> \<not> path_exists bare_world [''src'', ''setup.cfg'']
   \<and> \<not> path_exists bare_world [''src'', ''pyproject.toml'']
   \<and> fst (create quiet_env (Some [''src'']) None None (Some build_kwargs) bare_world)
       = Inr (Some fresh_info)
   \<and> fst (get_info quiet_env fresh_info bare_world)
       = Inr [(''base_dir'', VPath [''src'']),
              (''build_backend'', VStr ''setuptools.build_meta''),
              (''extra_kwargs'', VKwargs build_kwargs),
              (''setup_cfg'', VPath [''src'', ''setup.cfg'']),
              (''setup_py'', VPath [''src'', ''setup.py'']),
              (''pyproject'', VPath [''src'', ''pyproject.toml''])]
   \<and> fst (get_info quiet_env (fresh_info\<lparr>si_extra_kwargs := None\<rparr>) bare_world) = Inl TypeError"
  by code_simp

text \<open>
  C3, amended. When \<open>get_info\<close> returns, every key of the mapping has a truthy value
  (a field that is unset is omitted); \<open>base_dir\<close>, \<open>setup_cfg\<close>, \<open>setup_py\<close> and
  \<open>pyproject\<close> are in the mapping exactly when the aggregate was given them, whether or
  not the files exist, and \<open>build_backend\<close> is in it unless it is the empty string.
\<close>

theorem get_info_output:
  assumes "get_info env self w = (Inr d, self', w')"
  shows "(\<forall>k v. map_of d k = Some v \<longrightarrow> truthy v)
       \<and> map_of d ''base_dir'' = map_option VPath (si_base_dir self)
       \<and> map_of d ''setup_cfg'' = map_option VPath (si_setup_cfg self)
       \<and> map_of d ''setup_py'' = map_option VPath (si_setup_py self)
       \<and> map_of d ''pyproject'' = map_option VPath (si_pyproject self)
       \<and> map_of d ''build_backend''
           = (if si_build_backend self' = [] then None
              else Some (VStr (si_build_backend self')))"
proof -
  have k: "kept_fields self self'"
    using get_info_keeps[OF kept_fields_refl, where env=env and self=self and w=w] assms by (simp add: keeps_def)
  from as_dict_lookup[OF get_info_returns_as_dict[OF assms]] obtain rs where
    look: "\<And>k. map_of d k
             = (case map_of (prop_dict env self' rs) k of
                  None \<Rightarrow> None | Some v \<Rightarrow> if truthy v then Some v else None)"
    by blast
  have t: "\<forall>k v. map_of d k = Some v \<longrightarrow> truthy v"
    by (auto simp: look split: option.splits if_splits)
  have b: "map_of d ''base_dir'' = map_option VPath (si_base_dir self')"
    unfolding look by (simp add: prop_dict_def opt_val_VPath)
  have c: "map_of d ''setup_cfg'' = map_option VPath (si_setup_cfg self')"
    unfolding look by (simp add: prop_dict_def opt_val_VPath)
  have p: "map_of d ''setup_py'' = map_option VPath (si_setup_py self')"
    unfolding look by (simp add: prop_dict_def opt_val_VPath)
  have j: "map_of d ''pyproject'' = map_option VPath (si_pyproject self')"
    unfolding look by (simp add: prop_dict_def opt_val_VPath)
  have g: "map_of d ''build_backend''
      = (if si_build_backend self' = [] then None else Some (VStr (si_build_backend self')))"
    unfolding look by (simp add: prop_dict_def)
  show ?thesis using k t b c p j g by (simp add: kept_fields_def)
qed

theorem get_info_output_witness:
  "fst (get_info quiet_env fresh_info bare_world) = Inr bare_output
   \<and> map_of bare_output ''base_dir'' = map_option VPath (si_base_dir fresh_info)
   \<and> map_of bare_output ''setup_cfg'' = map_option VPath (si_setup_cfg fresh_info)
   \<and> map_of bare_output ''setup_py'' = map_option VPath (si_setup_py fresh_info)
   \<and> map_of bare_output ''pyproject'' = map_option VPath (si_pyproject fresh_info)
   \<and> map_of bare_output ''base_dir'' = Some (VPath [''src''])
   \<and> truthy (VPath [''src''])"
proof -
  let ?G = "get_info quiet_env fresh_info bare_world"
  have e: "fst ?G = Inr bare_output" by code_simp
  then have h: "?G = (Inr bare_output, fst (snd ?G), snd (snd ?G))"
    by (metis prod.collapse)
  have m: "map_of bare_output ''base_dir'' = Some (VPath [''src''])"
    by (simp add: bare_output_def)
  show ?thesis
    using e m get_info_output[OF h] by blast
qed

subsection \<open>Parsing a requirement line again\<close>

text \<open>
  What the round trip of \<open>from_string\<close> comes down to: the record is a function of the
  parsed requirement, so parsing the text of a record gives the record back when the
  requirement parser does so for the text of its own result. The parser and the text of
  a requirement belong to \<open>pkg_resources\<close>.
\<close>

lemma from_string_of_str:
  assumes "from_string init_requirement line = Inr b"
  obtains r where "br_requirement b = RObj r" and "BaseRequirement_str b = req_str r"
    and "init_requirement (strip (req_str r)) = Inr r
           \<Longrightarrow> from_string init_requirement (BaseRequirement_str b) = Inr b"
proof -
  from assms obtain r where r: "init_requirement (strip line) = Inr r" "b = from_req (RObj r)"
    by (auto simp: from_string_def split: sum.splits)
  have 1: "br_requirement b = RObj r" using r by (simp add: from_req_def Let_def)
  have 2: "BaseRequirement_str b = req_str r" using 1 by (simp add: BaseRequirement_str_def)
  have 3: "init_requirement (strip (req_str r)) = Inr r
      \<Longrightarrow> from_string init_requirement (BaseRequirement_str b) = Inr b"
    using r 2 by (simp add: from_string_def)
  from 1 2 3 show ?thesis by (rule that)
qed

subsection \<open>Extra.add\<close>

text \<open>
  C10. \<open>Extra.add\<close> is claimed to return a new extra containing the added requirement,
  also when the requirement is not yet in the extra. On the empty extra \<open>docs\<close> and the
  requirement \<open>foo\<close> the call raises \<open>TypeError\<close> instead: the argument of \<open>frozenset\<close>
  is the \<open>None\<close> that \<open>set.add\<close> returns.
\<close>

theorem Extra_add_new_requirement_raises:
  "Extra_add \<lparr>extra_name = Some ''docs'', extra_requirements = {}\<rparr>
     \<lparr>br_name = Some ''foo'', br_requirement = RStr ''foo''\<rparr> = Inl TypeError"
  by (simp add: Extra_add_def set_add_def frozenset_def)

end
